theory Spec2Isabelle
  imports Main
begin


section \<open>JavaScript values and errors\<close>

text \<open>
  Values that travel through the clients: parsed JSON bodies and what property reads of
  them yield. Numbers are restricted to integers. \<open>JUndefined\<close> is the result of
  reading a property that is not there.
\<close>

datatype jsval =
    JUndefined
  | JNull
  | JBool bool
  | JNum int
  | JStr string
  | JArr "jsval list"
  | JObj "(string \<times> jsval) list"

text \<open>
  What a workflow can throw: \<open>Error msg\<close> is \<^verbatim>\<open>throw new Error(msg)\<close> of the client
  itself; \<open>TypeError p\<close> is the runtime's error for reading or calling property \<open>p\<close> on a
  value that does not support it; \<open>SyntaxError\<close> is a body that \<^verbatim>\<open>response.json()\<close>
  cannot parse; \<open>NetworkError\<close> is a rejected \<^verbatim>\<open>fetch\<close>; \<open>AbortError\<close> is a
  \<^verbatim>\<open>fetch\<close> cancelled through its abort signal; \<open>Thrown v\<close> is a value thrown by the
  WebAssembly adapter.
\<close>

datatype js_error =
    Error string
  | TypeError string
  | SyntaxError
  | NetworkError string
  | AbortError
  | Thrown jsval

fun truthy :: "jsval \<Rightarrow> bool" where
  "truthy JUndefined = False"
| "truthy JNull = False"
| "truthy (JBool b) = b"
| "truthy (JNum n) = (n \<noteq> 0)"
| "truthy (JStr s) = (s \<noteq> [])"
| "truthy (JArr xs) = True"
| "truthy (JObj kvs) = True"

fun show_nat :: "nat \<Rightarrow> string" where
  "show_nat n =
     (if n < 10 then [char_of (48 + n)]
      else show_nat (n div 10) @ [char_of (48 + n mod 10)])"

declare show_nat.simps [simp del]

definition show_int :: "int \<Rightarrow> string" where
  "show_int i = (if i < 0 then ''-'' @ show_nat (nat (- i)) else show_nat (nat i))"

fun join_comma :: "string list \<Rightarrow> string" where
  "join_comma [] = []"
| "join_comma [s] = s"
| "join_comma (s # t # ss) = s @ '','' @ join_comma (t # ss)"

text \<open>String coercion, as in a template literal or \<^verbatim>\<open>"Bearer " + accessToken\<close>.\<close>

fun toString :: "jsval \<Rightarrow> string" where
  "toString JUndefined = ''undefined''"
| "toString JNull = ''null''"
| "toString (JBool b) = (if b then ''true'' else ''false'')"
| "toString (JNum n) = show_int n"
| "toString (JStr s) = s"
| "toString (JArr xs) =
     join_comma (map (\<lambda>x. if x = JUndefined \<or> x = JNull then [] else toString x) xs)"
| "toString (JObj kvs) = ''[object Object]''"

text \<open>
  Reading property \<open>k\<close> (one of the JSON field names the clients read): a TypeError on
  \<^verbatim>\<open>undefined\<close> and \<^verbatim>\<open>null\<close>, the field's value on an object that has it (the
  last occurrence of a repeated key wins, as in \<^verbatim>\<open>JSON.parse\<close>), \<^verbatim>\<open>undefined\<close>
  otherwise.
\<close>

fun get_prop :: "jsval \<Rightarrow> string \<Rightarrow> js_error + jsval" where
  "get_prop JUndefined k = Inl (TypeError k)"
| "get_prop JNull k = Inl (TypeError k)"
| "get_prop (JObj kvs) k =
     Inr (case map_of (rev kvs) k of None \<Rightarrow> JUndefined | Some v \<Rightarrow> v)"
| "get_prop (JBool b) k = Inr JUndefined"
| "get_prop (JNum n) k = Inr JUndefined"
| "get_prop (JStr s) k = Inr JUndefined"
| "get_prop (JArr xs) k = Inr JUndefined"

text \<open>
  \<^verbatim>\<open>v.slice(2)\<close>: strings and arrays have this function; on \<^verbatim>\<open>undefined\<close> and
  \<^verbatim>\<open>null\<close> the property read throws, on every other parsed JSON value the property is
  not a function and the call throws.
\<close>

fun slice2 :: "jsval \<Rightarrow> js_error + jsval" where
  "slice2 (JStr s) = Inr (JStr (drop 2 s))"
| "slice2 (JArr xs) = Inr (JArr (drop 2 xs))"
| "slice2 JUndefined = Inl (TypeError ''slice'')"
| "slice2 JNull = Inl (TypeError ''slice'')"
| "slice2 (JBool b) = Inl (TypeError ''slice'')"
| "slice2 (JNum n) = Inl (TypeError ''slice'')"
| "slice2 (JObj kvs) = Inl (TypeError ''slice'')"

section \<open>The network and asynchronous steps\<close>

datatype http_method = GET | POST

text \<open>The field \<open>req_method\<close> is \<^verbatim>\<open>method\<close> of the options passed to \<^verbatim>\<open>fetch\<close>.\<close>

record request =
  req_method :: http_method
  url :: string
  headers :: "(string \<times> string) list"
  body :: "jsval option"

text \<open>
  A response as the clients read it; \<open>json\<close> is the parsed body, \<open>None\<close> when the body
  is not JSON and \<^verbatim>\<open>response.json()\<close> rejects.
\<close>

record response =
  ok :: bool
  status :: nat
  statusText :: string
  json :: "jsval option"

datatype settled = Rejected string | Fulfilled response

text \<open>
  The trace of a workflow: every request it issued and every pause it took, in order.
  The services are a function of the trace so far and the request, giving the time in
  milliseconds after which \<^verbatim>\<open>fetch\<close> settles and how it settles.
\<close>

datatype event = Fetch request | Sleep nat

type_synonym server = "event list \<Rightarrow> request \<Rightarrow> nat \<times> settled"

type_synonym 'a io = "event list \<Rightarrow> (js_error + 'a) \<times> event list"

definition io_return :: "'a \<Rightarrow> 'a io" where
  "io_return x tr = (Inr x, tr)"

definition io_throw :: "js_error \<Rightarrow> 'a io" where
  "io_throw e tr = (Inl e, tr)"

text \<open>\<^verbatim>\<open>const x = await m; k(x)\<close>: an exception of \<open>m\<close> ends the function.\<close>

definition io_bind :: "'a io \<Rightarrow> ('a \<Rightarrow> 'b io) \<Rightarrow> 'b io" where
  "io_bind m k tr = (case m tr of (Inl e, tr') \<Rightarrow> (Inl e, tr') | (Inr x, tr') \<Rightarrow> k x tr')"

definition io_lift :: "js_error + 'a \<Rightarrow> 'a io" where
  "io_lift r tr = (r, tr)"

text \<open>
  \<^verbatim>\<open>fetch(url, {method, headers, body, signal})\<close>. The request is issued; \<open>signal\<close> is the
  time at which the request's abort controller fires, \<open>None\<close> when nothing ever aborts it.
  A fetch that has not settled when the controller fires rejects with an AbortError.
\<close>

definition fetch :: "server \<Rightarrow> nat option \<Rightarrow> request \<Rightarrow> response io" where
  "fetch srv signal req tr =
     (case srv tr req of (t, s) \<Rightarrow>
        (if (case signal of None \<Rightarrow> False | Some ms \<Rightarrow> ms < t)
         then (Inl AbortError, tr @ [Fetch req])
         else (case s of
                 Rejected msg \<Rightarrow> (Inl (NetworkError msg), tr @ [Fetch req])
               | Fulfilled r \<Rightarrow> (Inr r, tr @ [Fetch req]))))"

definition response_json :: "response \<Rightarrow> jsval io" where
  "response_json r = (case json r of None \<Rightarrow> io_throw SyntaxError | Some v \<Rightarrow> io_return v)"

definition sleep :: "nat \<Rightarrow> unit io" where
  "sleep ms tr = (Inr (), tr @ [Sleep ms])"

definition is_terminal :: "jsval \<Rightarrow> bool" where
  "is_terminal statusResponse \<longleftrightarrow>
     statusResponse = JStr ''done'' \<or> statusResponse = JStr ''failed''
     \<or> statusResponse = JStr ''canceled''"

section \<open>ts-proof-of-sql-sdk: proofOfSqlQuery\<close>

definition getAccessToken :: "server \<Rightarrow> jsval \<Rightarrow> jsval io" where
  "getAccessToken srv apiKey =
     io_bind (fetch srv None
        \<lparr>req_method = POST, url = ''https://proxy.api.makeinfinite.dev/auth/apikey'',
         headers = [(''apikey'', toString apiKey)], body = None\<rparr>)
       (\<lambda>response. io_bind (response_json response)
       (\<lambda>j. io_lift (get_prop j ''accessToken'')))"

definition postQuerySubmitRequest :: "server \<Rightarrow> jsval \<Rightarrow> jsval \<Rightarrow> jsval io" where
  "postQuerySubmitRequest srv sqlText accessToken =
     io_bind (fetch srv None
        \<lparr>req_method = POST, url = ''https://api.makeinfinite.dev/v1/zkquery'',
         headers = [(''Content-Type'', ''application/json''),
                    (''Authorization'', ''Bearer '' @ toString accessToken)],
         body = Some (JObj [(''sqlText'', sqlText), (''sourceNetwork'', JStr ''Mainnet'')])\<rparr>)
       (\<lambda>response. io_bind (response_json response)
       (\<lambda>j. io_lift (get_prop j ''queryId'')))"

definition status_request :: "jsval \<Rightarrow> jsval \<Rightarrow> request" where
  "status_request queryId accessToken =
     \<lparr>req_method = GET,
      url = ''https://api.makeinfinite.dev/v1/zkquery/'' @ toString queryId @ ''/status'',
      headers = [(''Authorization'', ''Bearer '' @ toString accessToken)], body = None\<rparr>"

definition results_request :: "jsval \<Rightarrow> jsval \<Rightarrow> request" where
  "results_request queryId accessToken =
     \<lparr>req_method = GET,
      url = ''https://api.makeinfinite.dev/v1/zkquery/'' @ toString queryId @ ''/results'',
      headers = [(''Authorization'', ''Bearer '' @ toString accessToken)], body = None\<rparr>"

definition getRequestStatus :: "server \<Rightarrow> jsval \<Rightarrow> jsval \<Rightarrow> jsval io" where
  "getRequestStatus srv queryId accessToken =
     io_bind (fetch srv None (status_request queryId accessToken))
       (\<lambda>response. io_bind (response_json response)
       (\<lambda>j. io_lift (get_prop j ''status'')))"

definition getResults :: "server \<Rightarrow> jsval \<Rightarrow> jsval \<Rightarrow> jsval io" where
  "getResults srv queryId accessToken =
     io_bind (fetch srv None (results_request queryId accessToken))
       (\<lambda>response. response_json response)"

text \<open>
  One pass through the body of the \<^verbatim>\<open>while\<close> loop of \<^verbatim>\<open>proofOfSqlQuery\<close>, after
  \<^verbatim>\<open>count++\<close>: the pause, the status request, the new value of \<^verbatim>\<open>success\<close>.
\<close>

definition poll_body :: "server \<Rightarrow> jsval \<Rightarrow> jsval \<Rightarrow> bool io" where
  "poll_body srv queryId accessToken =
     io_bind (sleep 1000)
       (\<lambda>_. io_bind (getRequestStatus srv queryId accessToken)
       (\<lambda>statusResponse. io_return (is_terminal statusResponse)))"

text \<open>
  \<^verbatim>\<open>while (!success && count < 60) { count++; ... }\<close>, returning the loop variables
  \<^verbatim>\<open>(success, count)\<close> as they are when the loop is left.
\<close>

function poll_loop :: "server \<Rightarrow> jsval \<Rightarrow> jsval \<Rightarrow> bool \<Rightarrow> nat \<Rightarrow> (bool \<times> nat) io" where
  "poll_loop srv queryId accessToken success count tr =
     (if \<not> success \<and> count < 60 then
        (case poll_body srv queryId accessToken tr of
           (Inl e, tr') \<Rightarrow> (Inl e, tr')
         | (Inr success', tr') \<Rightarrow> poll_loop srv queryId accessToken success' (count + 1) tr')
      else (Inr (success, count), tr))"
  by pat_completeness auto
termination
  by (relation "measure (\<lambda>(srv, queryId, accessToken, success, count, tr). 60 - count)") auto

declare poll_loop.simps [simp del]

text \<open>
  \<^verbatim>\<open>proofOfSqlQuery\<close> in two parts: from \<^verbatim>\<open>let success = false\<close> to the
  \<^verbatim>\<open>return\<close> (\<open>poll_then_results\<close>), and the whole function.
\<close>

definition poll_then_results :: "server \<Rightarrow> jsval \<Rightarrow> jsval \<Rightarrow> jsval io" where
  "poll_then_results srv queryId accessToken =
     io_bind (poll_loop srv queryId accessToken False 0)
       (\<lambda>_. getResults srv queryId accessToken)"

definition proofOfSqlQuery :: "server \<Rightarrow> jsval \<Rightarrow> jsval \<Rightarrow> jsval io" where
  "proofOfSqlQuery srv query apiKey =
     io_bind (getAccessToken srv apiKey)
       (\<lambda>accessToken. io_bind (postQuerySubmitRequest srv query accessToken)
       (\<lambda>queryId. poll_then_results srv queryId accessToken))"

section \<open>The WebAssembly adapter\<close>

text \<open>
  The planner and verifier are exports of the WebAssembly module, whose binary is not part
  of the JavaScript sources: they are parameters of the model. Each either returns or
  throws a JavaScript value (\<open>Inl\<close>). \<open>'c\<close> is the class \<^verbatim>\<open>TableRefAndCommitment\<close>.
  The field \<open>query_expr_json\<close> of the planner's result is called \<^verbatim>\<open>proof_plan_json\<close>
  in the later revision of the client.
\<close>

record 'c planned =
  prover_query_json :: jsval
  query_expr_json :: jsval
  commitments :: "'c list"

record 'c adapter =
  commitment_storage_key_dory :: "string \<Rightarrow> jsval + string"
  new_TableRefAndCommitment :: "string \<Rightarrow> jsval \<Rightarrow> jsval + 'c"
  plan_prover_query_dory :: "string \<Rightarrow> 'c list \<Rightarrow> jsval + 'c planned"
  verify_prover_response_dory :: "jsval \<Rightarrow> jsval \<Rightarrow> 'c list \<Rightarrow> jsval + jsval"
  verify_prover_response_hyper_kzg :: "jsval \<Rightarrow> jsval + jsval"

definition adapter_call :: "jsval + 'a \<Rightarrow> 'a io" where
  "adapter_call r tr = (case r of Inl v \<Rightarrow> (Inl (Thrown v), tr) | Inr x \<Rightarrow> (Inr x, tr))"

section \<open>chainlink-functions: SxTClient, synchronous flow\<close>

record client_base =
  authRootURL :: string
  substrateNodeURL :: string
  sxtApiKey :: jsval

record prover_client = client_base +
  proverRootURL :: string

record zk_client = client_base +
  zkQueryRootURL :: string

text \<open>
  \<^verbatim>\<open>postHttpRequest({url, headers, data})\<close> of the chainlink-functions client: the abort
  controller is fired by a timer set to 3000 ms before the request is issued.
\<close>

definition postHttpRequest_cf :: "server \<Rightarrow> string \<Rightarrow> (string \<times> string) list \<Rightarrow> jsval \<Rightarrow> response io" where
  "postHttpRequest_cf srv u hs data =
     fetch srv (Some 3000)
       \<lparr>req_method = POST, url = u, headers = hs,
        body = (if truthy data then Some data else None)\<rparr>"

definition auth_error :: "response \<Rightarrow> js_error" where
  "auth_error r =
     Error (''Error querying auth endpoint: '' @ show_nat (status r) @ '': '' @ statusText r)"

definition rpc_error :: "response \<Rightarrow> js_error" where
  "rpc_error r =
     Error (''Error querying RPC node: '' @ show_nat (status r) @ '': '' @ statusText r)"

definition prover_error :: "response \<Rightarrow> js_error" where
  "prover_error r =
     Error (''Error querying prover: '' @ show_nat (status r) @ '': '' @ statusText r)"

definition zk_api_error :: "response \<Rightarrow> js_error" where
  "zk_api_error r =
     Error (''Error querying zk query api: '' @ show_nat (status r) @ '': '' @ statusText r)"

definition getAccessToken_cf :: "server \<Rightarrow> 'a client_base_scheme \<Rightarrow> jsval io" where
  "getAccessToken_cf srv c =
     (if \<not> truthy (sxtApiKey c) then io_throw (Error ''API Key Not Found'')
      else io_bind (postHttpRequest_cf srv (authRootURL c)
              [(''apikey'', toString (sxtApiKey c)), (''Content-Type'', ''application/json'')]
              JNull)
        (\<lambda>authResponse.
           if \<not> ok authResponse then io_throw (auth_error authResponse)
           else response_json authResponse))"

definition getCommitment_cf :: "server \<Rightarrow> 'a client_base_scheme \<Rightarrow> jsval \<Rightarrow> jsval io" where
  "getCommitment_cf srv c commitmentKey =
     io_bind (postHttpRequest_cf srv (substrateNodeURL c)
        [(''Content-Type'', ''application/json'')]
        (JObj [(''id'', JNum 1), (''jsonrpc'', JStr ''2.0''),
               (''method'', JStr ''state_getStorage''), (''params'', JArr [commitmentKey])]))
       (\<lambda>commitmentResponse.
          if \<not> ok commitmentResponse then io_throw (rpc_error commitmentResponse)
          else response_json commitmentResponse)"

definition getProof_cf :: "server \<Rightarrow> 'a prover_client_scheme \<Rightarrow> jsval \<Rightarrow> jsval \<Rightarrow> jsval io" where
  "getProof_cf srv c accessToken proverQuery =
     io_bind (postHttpRequest_cf srv (proverRootURL c)
        [(''Authorization'', ''Bearer '' @ toString accessToken),
         (''content-type'', ''application/json'')]
        proverQuery)
       (\<lambda>proverResponse.
          if \<not> ok proverResponse then io_throw (prover_error proverResponse)
          else response_json proverResponse)"

definition queryAndVerify_cf ::
  "server \<Rightarrow> 'c adapter \<Rightarrow> 'a prover_client_scheme \<Rightarrow> string \<Rightarrow> string \<Rightarrow> jsval \<Rightarrow> jsval io" where
  "queryAndVerify_cf srv ad c queryString table commitmentKey =
     io_bind (getAccessToken_cf srv c)
       (\<lambda>authResponse. io_bind (io_lift (get_prop authResponse ''accessToken''))
       (\<lambda>accessToken. io_bind (getCommitment_cf srv c commitmentKey)
       (\<lambda>commitmentResponse. io_bind (io_lift (get_prop commitmentResponse ''result''))
       (\<lambda>result. io_bind (io_lift (slice2 result))
       (\<lambda>commitment. io_bind (adapter_call (new_TableRefAndCommitment ad table commitment))
       (\<lambda>tc. io_bind (adapter_call (plan_prover_query_dory ad queryString [tc]))
       (\<lambda>plannedProverQuery.
          io_bind (getProof_cf srv c accessToken (prover_query_json plannedProverQuery))
       (\<lambda>proverResponseJson.
          adapter_call (verify_prover_response_dory ad proverResponseJson
            (query_expr_json plannedProverQuery) (commitments plannedProverQuery))))))))))"

section \<open>SxTClient, asynchronous flow (zkquery jobs)\<close>

text \<open>
  The helpers of this client build an abort controller and never fire it: the signal they
  pass to \<^verbatim>\<open>fetch\<close> never aborts.
\<close>

definition postHttpRequest :: "server \<Rightarrow> string \<Rightarrow> (string \<times> string) list \<Rightarrow> jsval \<Rightarrow> response io" where
  "postHttpRequest srv u hs data =
     fetch srv None
       \<lparr>req_method = POST, url = u, headers = hs,
        body = (if truthy data then Some data else None)\<rparr>"

definition getHttpRequest :: "server \<Rightarrow> string \<Rightarrow> (string \<times> string) list \<Rightarrow> response io" where
  "getHttpRequest srv u hs =
     fetch srv None \<lparr>req_method = GET, url = u, headers = hs, body = None\<rparr>"

definition getAccessToken_zk :: "server \<Rightarrow> 'a client_base_scheme \<Rightarrow> jsval io" where
  "getAccessToken_zk srv c =
     (if \<not> truthy (sxtApiKey c) then io_throw (Error ''API Key Not Found'')
      else io_bind (postHttpRequest srv (authRootURL c)
              [(''apikey'', toString (sxtApiKey c)), (''Content-Type'', ''application/json'')]
              JNull)
        (\<lambda>authResponse.
           if \<not> ok authResponse then io_throw (auth_error authResponse)
           else response_json authResponse))"

definition querySubstrateRpc :: "server \<Rightarrow> 'a client_base_scheme \<Rightarrow> string \<Rightarrow> jsval \<Rightarrow> jsval io" where
  "querySubstrateRpc srv c meth params =
     io_bind (postHttpRequest srv (substrateNodeURL c)
        [(''Content-Type'', ''application/json'')]
        (JObj [(''id'', JNum 1), (''jsonrpc'', JStr ''2.0''),
               (''method'', JStr meth), (''params'', params)]))
       (\<lambda>response.
          if \<not> ok response then io_throw (rpc_error response)
          else response_json response)"

definition getAttestations :: "server \<Rightarrow> 'a client_base_scheme \<Rightarrow> jsval \<Rightarrow> jsval io" where
  "getAttestations srv c blockHash =
     (if truthy blockHash
      then querySubstrateRpc srv c ''attestation_v1_attestationsForBlock''
             (JArr [JStr (''0x'' @ toString blockHash)])
      else querySubstrateRpc srv c ''attestation_v1_bestRecentAttestations'' JNull)"

definition postZkQueryApi :: "server \<Rightarrow> 'a zk_client_scheme \<Rightarrow> string \<Rightarrow> jsval \<Rightarrow> jsval \<Rightarrow> jsval io" where
  "postZkQueryApi srv c endpoint accessToken data =
     io_bind (postHttpRequest srv (zkQueryRootURL c @ endpoint)
        [(''Authorization'', ''Bearer '' @ toString accessToken),
         (''Content-Type'', ''application/json'')]
        data)
       (\<lambda>proverResponse.
          if \<not> ok proverResponse then io_throw (zk_api_error proverResponse)
          else response_json proverResponse)"

definition zk_get_request :: "'a zk_client_scheme \<Rightarrow> string \<Rightarrow> jsval \<Rightarrow> request" where
  "zk_get_request c endpoint accessToken =
     \<lparr>req_method = GET, url = zkQueryRootURL c @ endpoint,
      headers = [(''Authorization'', ''Bearer '' @ toString accessToken),
                 (''Content-Type'', ''application/json'')],
      body = None\<rparr>"

definition getZkQueryApi :: "server \<Rightarrow> 'a zk_client_scheme \<Rightarrow> string \<Rightarrow> jsval \<Rightarrow> jsval io" where
  "getZkQueryApi srv c endpoint accessToken =
     io_bind (getHttpRequest srv (zkQueryRootURL c @ endpoint)
        [(''Authorization'', ''Bearer '' @ toString accessToken),
         (''Content-Type'', ''application/json'')])
       (\<lambda>proverResponse.
          if \<not> ok proverResponse then io_throw (prover_error proverResponse)
          else response_json proverResponse)"

definition submitZkQueryRequest :: "server \<Rightarrow> 'a zk_client_scheme \<Rightarrow> jsval \<Rightarrow> jsval \<Rightarrow> jsval io" where
  "submitZkQueryRequest srv c accessToken querySubmitRequest =
     postZkQueryApi srv c ''/v1/zkquery'' accessToken querySubmitRequest"

definition status_endpoint :: "jsval \<Rightarrow> string" where
  "status_endpoint queryId = ''/v1/zkquery/'' @ toString queryId @ ''/status''"

definition results_endpoint :: "jsval \<Rightarrow> string" where
  "results_endpoint queryId = ''/v1/zkquery/'' @ toString queryId @ ''/results''"

definition getZkQueryStatus :: "server \<Rightarrow> 'a zk_client_scheme \<Rightarrow> jsval \<Rightarrow> jsval \<Rightarrow> jsval io" where
  "getZkQueryStatus srv c accessToken queryId =
     getZkQueryApi srv c (status_endpoint queryId) accessToken"

definition getZkQueryResult :: "server \<Rightarrow> 'a zk_client_scheme \<Rightarrow> jsval \<Rightarrow> jsval \<Rightarrow> jsval io" where
  "getZkQueryResult srv c accessToken queryId =
     getZkQueryApi srv c (results_endpoint queryId) accessToken"

text \<open>
  \<^verbatim>\<open>(await this.#getZkQueryStatus(accessToken, queryId)).status\<close> and the value of
  \<^verbatim>\<open>success\<close> computed from it: the status check before the loop, and the end of the
  loop's body.
\<close>

definition check_status :: "server \<Rightarrow> 'a zk_client_scheme \<Rightarrow> jsval \<Rightarrow> jsval \<Rightarrow> bool io" where
  "check_status srv c accessToken queryId =
     io_bind (getZkQueryStatus srv c accessToken queryId)
       (\<lambda>j. io_bind (io_lift (get_prop j ''status''))
       (\<lambda>statusResponse. io_return (is_terminal statusResponse)))"

definition poll_body_zk :: "server \<Rightarrow> 'a zk_client_scheme \<Rightarrow> jsval \<Rightarrow> jsval \<Rightarrow> bool io" where
  "poll_body_zk srv c accessToken queryId =
     io_bind (sleep 1000) (\<lambda>_. check_status srv c accessToken queryId)"

function poll_loop_zk ::
  "server \<Rightarrow> 'a zk_client_scheme \<Rightarrow> jsval \<Rightarrow> jsval \<Rightarrow> bool \<Rightarrow> nat \<Rightarrow> (bool \<times> nat) io" where
  "poll_loop_zk srv c accessToken queryId success count tr =
     (if \<not> success \<and> count < 60 then
        (case poll_body_zk srv c accessToken queryId tr of
           (Inl e, tr') \<Rightarrow> (Inl e, tr')
         | (Inr success', tr') \<Rightarrow> poll_loop_zk srv c accessToken queryId success' (count + 1) tr')
      else (Inr (success, count), tr))"
  by pat_completeness auto
termination
  by (relation "measure (\<lambda>(srv, c, accessToken, queryId, success, count, tr). 60 - count)") auto

declare poll_loop_zk.simps [simp del]

text \<open>
  \<^verbatim>\<open>queryAndVerify\<close> in parts: its last two statements, the result fetch and the
  verification (\<open>result_then_verify\<close>); from \<^verbatim>\<open>let count = 0\<close> to the
  \<^verbatim>\<open>return\<close> (\<open>poll_then_verify\<close>); and the whole of it.
\<close>

definition result_then_verify ::
  "server \<Rightarrow> 'c adapter \<Rightarrow> 'a zk_client_scheme \<Rightarrow> jsval \<Rightarrow> jsval \<Rightarrow> jsval io" where
  "result_then_verify srv ad c accessToken queryId =
     io_bind (getZkQueryResult srv c accessToken queryId)
       (\<lambda>proverResponseJson.
          adapter_call (verify_prover_response_hyper_kzg ad proverResponseJson))"

definition poll_then_verify ::
  "server \<Rightarrow> 'c adapter \<Rightarrow> 'a zk_client_scheme \<Rightarrow> jsval \<Rightarrow> jsval \<Rightarrow> jsval io" where
  "poll_then_verify srv ad c accessToken queryId =
     io_bind (check_status srv c accessToken queryId)
       (\<lambda>success. io_bind (poll_loop_zk srv c accessToken queryId success 0)
       (\<lambda>_. result_then_verify srv ad c accessToken queryId))"

definition queryAndVerify_zk ::
  "server \<Rightarrow> 'c adapter \<Rightarrow> 'a zk_client_scheme \<Rightarrow> string \<Rightarrow> jsval \<Rightarrow> jsval io" where
  "queryAndVerify_zk srv ad c queryString blockHash =
     io_bind (getAccessToken_zk srv c)
       (\<lambda>authResponse. io_bind (io_lift (get_prop authResponse ''accessToken''))
       (\<lambda>accessToken. io_bind (getAttestations srv c blockHash)
       (\<lambda>attestationsResponse. io_bind (io_lift (get_prop attestationsResponse ''result''))
       (\<lambda>result. io_bind (io_lift (get_prop result ''attestationsFor''))
       (\<lambda>bestBlockHash.
          io_bind (submitZkQueryRequest srv c accessToken
            (JObj [(''sqlText'', JStr queryString), (''sourceNetwork'', JStr ''mainnet''),
                   (''commitmentScheme'', JStr ''HYPER_KZG''), (''blockHash'', bestBlockHash),
                   (''timeout'', JNull)]))
       (\<lambda>submitQueryResponse. io_bind (io_lift (get_prop submitQueryResponse ''queryId''))
       (\<lambda>queryId. poll_then_verify srv ad c accessToken queryId)))))))"

section \<open>SxTClient, synchronous flow, later revision\<close>

text \<open>
  This revision derives the storage key itself and reads \<^verbatim>\<open>proof_plan_json\<close>. Its
  methods \<^verbatim>\<open>#getCommitment\<close> and \<^verbatim>\<open>#getProof\<close> are not among the sources: they are
  the parameters \<open>getCommitment\<close> and \<open>getProof\<close>. Its \<^verbatim>\<open>#getAccessToken\<close> and
  \<^verbatim>\<open>postHttpRequest\<close> are those of the asynchronous client, word for word.
\<close>

definition queryAndVerify_rev ::
  "(jsval \<Rightarrow> jsval \<Rightarrow> jsval io) \<Rightarrow> (jsval \<Rightarrow> jsval \<Rightarrow> jsval io) \<Rightarrow>
   server \<Rightarrow> 'c adapter \<Rightarrow> 'a client_base_scheme \<Rightarrow> string \<Rightarrow> string \<Rightarrow> jsval \<Rightarrow> jsval io" where
  "queryAndVerify_rev getCommitment getProof srv ad c queryString table blockHash =
     io_bind (adapter_call (commitment_storage_key_dory ad table))
       (\<lambda>key. io_bind (getAccessToken_zk srv c)
       (\<lambda>authResponse. io_bind (io_lift (get_prop authResponse ''accessToken''))
       (\<lambda>accessToken. io_bind (getCommitment (JStr (''0x'' @ key)) blockHash)
       (\<lambda>commitmentResponse. io_bind (io_lift (get_prop commitmentResponse ''result''))
       (\<lambda>result. io_bind (io_lift (slice2 result))
       (\<lambda>commitment. io_bind (adapter_call (new_TableRefAndCommitment ad table commitment))
       (\<lambda>tc. io_bind (adapter_call (plan_prover_query_dory ad queryString [tc]))
       (\<lambda>plannedProverQuery.
          io_bind (getProof accessToken (prover_query_json plannedProverQuery))
       (\<lambda>proverResponseJson.
          adapter_call (verify_prover_response_dory ad proverResponseJson
            (query_expr_json plannedProverQuery) (commitments plannedProverQuery)))))))))))"

section \<open>Reading traces and services\<close>

text \<open>How many times the request \<open>req\<close> occurs in a trace.\<close>

definition count_req :: "request \<Rightarrow> event list \<Rightarrow> nat" where
  "count_req req tr = length (filter (\<lambda>e. e = Fetch req) tr)"

text \<open>
  What a successful answer of the services to the status request \<open>req\<close>, asked after the
  trace \<open>h\<close>, carries in its \<^verbatim>\<open>status\<close> field; \<open>None\<close> when the answer is not a
  successful JSON response.
\<close>

definition status_reply :: "server \<Rightarrow> event list \<Rightarrow> request \<Rightarrow> jsval option" where
  "status_reply srv h req =
     (case snd (srv h req) of
        Rejected msg \<Rightarrow> None
      | Fulfilled r \<Rightarrow>
          (if ok r then
             (case json r of
                None \<Rightarrow> None
              | Some j \<Rightarrow> (case get_prop j ''status'' of Inl e \<Rightarrow> None | Inr v \<Rightarrow> Some v))
           else None))"

text \<open>The events of \<open>n\<close> passes through a polling loop: a pause, then the status request.\<close>

fun polls :: "nat \<Rightarrow> request \<Rightarrow> event list" where
  "polls 0 req = []"
| "polls (Suc n) req = Sleep 1000 # Fetch req # polls n req"

text \<open>
  The status endpoint answers \<^verbatim>\<open>pending\<close> to the first \<open>k\<close> status requests and
  \<open>final\<close> to the next one; and a status endpoint that never answers with a terminal
  status.
\<close>

definition pending_then :: "server \<Rightarrow> request \<Rightarrow> nat \<Rightarrow> jsval \<Rightarrow> bool" where
  "pending_then srv req k final \<longleftrightarrow>
     (\<forall>h. count_req req h < k \<longrightarrow> status_reply srv h req = Some (JStr ''pending''))
     \<and> (\<forall>h. count_req req h = k \<longrightarrow> status_reply srv h req = Some final)"

definition never_terminal :: "server \<Rightarrow> request \<Rightarrow> bool" where
  "never_terminal srv req \<longleftrightarrow>
     (\<forall>h. \<exists>v. status_reply srv h req = Some v \<and> \<not> is_terminal v)"

section \<open>Scripted services\<close>

text \<open>
  Services for concrete runs. They answer at once with status 200; \<open>mock_ts\<close> serves
  \<^verbatim>\<open>proofOfSqlQuery\<close> and \<open>mock_zk\<close> the asynchronous client, both answering
  \<^verbatim>\<open>pending\<close> to the first \<open>k\<close> status requests and \<open>final\<close> from then on;
  \<open>mock_cf\<close> serves the synchronous clients, with the node's result and the settling time
  of the prover as parameters. The adapter \<open>mock_adapter\<close> plans by marking every
  commitment as normalized, and its verifier reports the commitments it was given.
\<close>

definition mock_json :: "jsval \<Rightarrow> nat \<times> settled" where
  "mock_json j = (0, Fulfilled \<lparr>ok = True, status = 200, statusText = ''OK'', json = Some j\<rparr>)"

definition mock_rows :: jsval where
  "mock_rows = JObj [(''count'', JNum 42)]"

definition mock_ts :: "nat \<Rightarrow> string \<Rightarrow> server" where
  "mock_ts k final h req =
     mock_json
       (if url req = ''https://proxy.api.makeinfinite.dev/auth/apikey''
        then JObj [(''accessToken'', JStr ''tok1'')]
        else if url req = ''https://api.makeinfinite.dev/v1/zkquery''
        then JObj [(''queryId'', JStr ''q1'')]
        else if req = status_request (JStr ''q1'') (JStr ''tok1'')
        then JObj [(''status'', JStr (if count_req req h < k then ''pending'' else final))]
        else mock_rows)"

definition mock_zk_client :: zk_client where
  "mock_zk_client =
     \<lparr>authRootURL = ''auth'', substrateNodeURL = ''rpc'', sxtApiKey = JStr ''key'',
      zkQueryRootURL = ''zk''\<rparr>"

definition mock_zk :: "nat \<Rightarrow> string \<Rightarrow> server" where
  "mock_zk k final h req =
     mock_json
       (if url req = ''auth'' then JObj [(''accessToken'', JStr ''tok1'')]
        else if url req = ''rpc''
        then JObj [(''result'', JObj [(''attestationsFor'', JStr ''0xb10c'')])]
        else if url req = ''zk/v1/zkquery'' then JObj [(''queryId'', JStr ''q1'')]
        else if req = zk_get_request mock_zk_client (status_endpoint (JStr ''q1'')) (JStr ''tok1'')
        then JObj [(''status'', JStr (if count_req req h < k then ''pending'' else final))]
        else mock_rows)"

definition mock_adapter :: "(string \<times> jsval) adapter" where
  "mock_adapter =
     \<lparr>commitment_storage_key_dory = (\<lambda>t. Inr t),
      new_TableRefAndCommitment = (\<lambda>t c. Inr (t, c)),
      plan_prover_query_dory = (\<lambda>q cs.
        Inr \<lparr>prover_query_json = JObj [(''query'', JStr q)], query_expr_json = JStr q,
             commitments = map (\<lambda>(t, c). (t, JArr [JStr ''normalized'', c])) cs\<rparr>),
      verify_prover_response_dory = (\<lambda>r p cs. Inr (JObj [(''rows'', r), (''checked'', JArr (map snd cs))])),
      verify_prover_response_hyper_kzg = (\<lambda>r. Inr (JObj [(''rows'', r)]))\<rparr>"

text \<open>
  The requests the asynchronous client issues on \<open>mock_zk\<close> before it polls, and the
  requests of a full run of the synchronous client on \<open>mock_cf\<close> with its result.
\<close>

definition mock_zk_prologue :: "string \<Rightarrow> event list" where
  "mock_zk_prologue q =
     [Fetch \<lparr>req_method = POST, url = ''auth'',
             headers = [(''apikey'', ''key''), (''Content-Type'', ''application/json'')],
             body = None\<rparr>,
      Fetch \<lparr>req_method = POST, url = ''rpc'',
             headers = [(''Content-Type'', ''application/json'')],
             body = Some (JObj [(''id'', JNum 1), (''jsonrpc'', JStr ''2.0''),
               (''method'', JStr ''attestation_v1_bestRecentAttestations''),
               (''params'', JNull)])\<rparr>,
      Fetch \<lparr>req_method = POST, url = ''zk/v1/zkquery'',
             headers = [(''Authorization'', ''Bearer tok1''),
                        (''Content-Type'', ''application/json'')],
             body = Some (JObj [(''sqlText'', JStr q), (''sourceNetwork'', JStr ''mainnet''),
               (''commitmentScheme'', JStr ''HYPER_KZG''), (''blockHash'', JStr ''0xb10c''),
               (''timeout'', JNull)])\<rparr>]"

definition mock_cf_client :: prover_client where
  "mock_cf_client =
     \<lparr>authRootURL = ''auth'', substrateNodeURL = ''rpc'', sxtApiKey = JStr ''key'',
      proverRootURL = ''prover''\<rparr>"

definition mock_cf :: "jsval \<Rightarrow> nat \<Rightarrow> server" where
  "mock_cf rpc_result prover_ms h req =
     (if url req = ''prover'' then prover_ms else 0,
      Fulfilled \<lparr>ok = True, status = 200, statusText = ''OK'',
        json = Some (if url req = ''auth'' then JObj [(''accessToken'', JStr ''tok1'')]
                     else if url req = ''rpc'' then JObj [(''result'', rpc_result)]
                     else mock_rows)\<rparr>)"

definition mock_cf_trace :: "event list" where
  "mock_cf_trace =
     [Fetch \<lparr>req_method = POST, url = ''auth'',
             headers = [(''apikey'', ''key''), (''Content-Type'', ''application/json'')],
             body = None\<rparr>,
      Fetch \<lparr>req_method = POST, url = ''rpc'',
             headers = [(''Content-Type'', ''application/json'')],
             body = Some (JObj [(''id'', JNum 1), (''jsonrpc'', JStr ''2.0''),
               (''method'', JStr ''state_getStorage''), (''params'', JArr [JStr ''0xkey''])])\<rparr>,
      Fetch \<lparr>req_method = POST, url = ''prover'',
             headers = [(''Authorization'', ''Bearer tok1''),
                        (''content-type'', ''application/json'')],
             body = Some (JObj [(''query'', JStr ''select 1'')])\<rparr>]"

definition mock_verified :: jsval where
  "mock_verified =
     JObj [(''rows'', mock_rows),
           (''checked'', JArr [JArr [JStr ''normalized'', JStr ''AB12'']])]"

section \<open>Properties of steps\<close>

text \<open>The URLs of the requests of a trace, in order.\<close>

fun fetch_urls :: "event list \<Rightarrow> string list" where
  "fetch_urls [] = []"
| "fetch_urls (Fetch r # es) = url r # fetch_urls es"
| "fetch_urls (Sleep n # es) = fetch_urls es"

text \<open>
  \<open>late_aborts srv m\<close>: the step \<open>m\<close> only extends the trace, and if a request it
  issued was answered after more than 3000 ms, the step threw the AbortError and that
  request is the last event.
\<close>

definition late_aborts :: "server \<Rightarrow> 'a io \<Rightarrow> bool" where
  "late_aborts srv m \<longleftrightarrow>
     (\<forall>tr r tr'. m tr = (r, tr') \<longrightarrow>
        (\<exists>ev. tr' = tr @ ev)
        \<and> (\<forall>i req. length tr \<le> i \<and> i < length tr' \<and> tr' ! i = Fetch req
              \<and> 3000 < fst (srv (take i tr') req)
            \<longrightarrow> r = Inl AbortError \<and> Suc i = length tr'))"

text \<open>The services \<open>srv\<close> with every settling time replaced by what \<open>d\<close> gives.\<close>

definition delayed :: "(event list \<Rightarrow> request \<Rightarrow> nat) \<Rightarrow> server \<Rightarrow> server" where
  "delayed d srv h req = (d h req, snd (srv h req))"

text \<open>\<open>no_abort m\<close>: the step \<open>m\<close> never throws the AbortError.\<close>

definition no_abort :: "'a io \<Rightarrow> bool" where
  "no_abort m \<longleftrightarrow> (\<forall>tr. fst (m tr) \<noteq> Inl AbortError)"

text \<open>
  \<open>abort_means_late srv m\<close>: the step \<open>m\<close> never shortens the trace, and when it throws
  the AbortError the last event of the trace is a request it issued that the services
  answered after more than 3000 ms.
\<close>

definition abort_means_late :: "server \<Rightarrow> 'a io \<Rightarrow> bool" where
  "abort_means_late srv m \<longleftrightarrow>
     (\<forall>tr r tr'. m tr = (r, tr') \<longrightarrow>
        length tr \<le> length tr'
        \<and> (r = Inl AbortError
            \<longrightarrow> (\<exists>h req. tr' = h @ [Fetch req] \<and> length tr \<le> length h
                    \<and> 3000 < fst (srv h req))))"

section \<open>Lemmas\<close>

lemma count_req_append [simp]: "count_req req (xs @ ys) = count_req req xs + count_req req ys"
  by (simp add: count_req_def)

lemma count_req_simps [simp]:
  "count_req req [] = 0"
  "count_req req (Sleep n # tr) = count_req req tr"
  "count_req req (Fetch r # tr) = (if r = req then 1 else 0) + count_req req tr"
  by (auto simp: count_req_def)

lemma count_req_polls [simp]: "count_req req (polls n r) = (if r = req then n else 0)"
  by (induction n) auto

lemma fetch_None:
  "fetch srv None req tr =
     (case snd (srv tr req) of
        Rejected msg \<Rightarrow> (Inl (NetworkError msg), tr @ [Fetch req])
      | Fulfilled r \<Rightarrow> (Inr r, tr @ [Fetch req]))"
  by (simp add: fetch_def split: prod.splits)

lemma getRequestStatus_reply:
  assumes "status_reply srv tr (status_request queryId accessToken) = Some v"
  shows "getRequestStatus srv queryId accessToken tr
         = (Inr v, tr @ [Fetch (status_request queryId accessToken)])"
  using assms
  by (auto simp: getRequestStatus_def status_reply_def io_bind_def fetch_None response_json_def
        io_return_def io_throw_def io_lift_def split: settled.splits option.splits sum.splits if_splits)

lemma poll_body_reply:
  assumes "status_reply srv (tr @ [Sleep 1000]) (status_request queryId accessToken) = Some v"
  shows "poll_body srv queryId accessToken tr
         = (Inr (is_terminal v), tr @ [Sleep 1000, Fetch (status_request queryId accessToken)])"
  using getRequestStatus_reply [OF assms]
  by (simp add: poll_body_def io_bind_def sleep_def io_return_def)

lemma poll_loop_never:
  assumes never: "\<forall>h. \<exists>v. status_reply srv h (status_request queryId accessToken) = Some v
                     \<and> \<not> is_terminal v"
    and "count \<le> 60"
  shows "poll_loop srv queryId accessToken False count tr
         = (Inr (False, 60), tr @ polls (60 - count) (status_request queryId accessToken))"
  using assms(2)
proof (induction "60 - count" arbitrary: count tr)
  case 0
  then have "count = 60" by simp
  then show ?case by (simp add: poll_loop.simps)
next
  case (Suc d)
  then have lt: "count < 60" by simp
  obtain v where v: "status_reply srv (tr @ [Sleep 1000]) (status_request queryId accessToken) = Some v"
    "\<not> is_terminal v" using never by blast
  have d: "d = 60 - (count + 1)" using Suc.hyps(2) by simp
  have "60 - count = Suc (60 - (count + 1))" using lt by simp
  then have p: "polls (60 - count) (status_request queryId accessToken)
     = Sleep 1000 # Fetch (status_request queryId accessToken) # polls (60 - (count + 1)) (status_request queryId accessToken)"
    by simp
  show ?case
    using Suc.hyps(1) [OF d, of "tr @ [Sleep 1000, Fetch (status_request queryId accessToken)]"] lt v
    by (subst poll_loop.simps) (simp add: poll_body_reply [OF v(1)] p)
qed

lemma poll_loop_pending_then:
  assumes pend: "\<forall>h. count_req (status_request queryId accessToken) h < m \<longrightarrow>
             (\<exists>v. status_reply srv h (status_request queryId accessToken) = Some v \<and> \<not> is_terminal v)"
    and fin: "\<forall>h. count_req (status_request queryId accessToken) h = m \<longrightarrow>
             (\<exists>v. status_reply srv h (status_request queryId accessToken) = Some v \<and> is_terminal v)"
    and "count_req (status_request queryId accessToken) tr \<le> m"
    and "count + (m - count_req (status_request queryId accessToken) tr) < 60"
  shows "poll_loop srv queryId accessToken False count tr
         = (Inr (True, count + (m - count_req (status_request queryId accessToken) tr) + 1),
            tr @ polls (Suc (m - count_req (status_request queryId accessToken) tr))
                   (status_request queryId accessToken))"
  using assms(3,4)
proof (induction "m - count_req (status_request queryId accessToken) tr" arbitrary: count tr)
  case 0
  let ?req = "status_request queryId accessToken"
  from 0 have c: "count_req ?req (tr @ [Sleep 1000]) = m" by simp
  then obtain v where v: "status_reply srv (tr @ [Sleep 1000]) ?req = Some v" "is_terminal v"
    using fin by blast
  have lt: "count < 60" using 0 by simp
  have m0: "m - count_req ?req tr = 0" using 0 by simp
  show ?case
    using lt v(2)
    by (subst poll_loop.simps) (simp add: poll_body_reply [OF v(1)] m0 poll_loop.simps)
next
  case (Suc d)
  let ?req = "status_request queryId accessToken"
  let ?tr' = "tr @ [Sleep 1000, Fetch ?req]"
  from Suc have c: "count_req ?req (tr @ [Sleep 1000]) < m" by simp
  then obtain v where v: "status_reply srv (tr @ [Sleep 1000]) ?req = Some v" "\<not> is_terminal v"
    using pend by blast
  have lt: "count < 60" using Suc by simp
  have d: "d = m - count_req ?req ?tr'" using Suc.hyps(2) by simp
  have le: "count_req ?req ?tr' \<le> m" using Suc.hyps(2) by simp
  have b: "(count + 1) + (m - count_req ?req ?tr') < 60" using Suc.prems Suc.hyps(2) by simp
  have e: "m - count_req ?req tr = Suc (m - count_req ?req ?tr')" using Suc.hyps(2) by simp
  show ?case
    using Suc.hyps(1) [OF d le b] lt v(2)
    by (subst poll_loop.simps) (simp add: poll_body_reply [OF v(1)] e)
qed

lemma check_status_reply:
  assumes "status_reply srv tr (zk_get_request c (status_endpoint queryId) accessToken) = Some v"
  shows "check_status srv c accessToken queryId tr
         = (Inr (is_terminal v), tr @ [Fetch (zk_get_request c (status_endpoint queryId) accessToken)])"
  using assms
  by (auto simp: check_status_def getZkQueryStatus_def getZkQueryApi_def getHttpRequest_def
        zk_get_request_def status_reply_def io_bind_def fetch_None response_json_def
        io_return_def io_throw_def io_lift_def
        split: settled.splits option.splits sum.splits if_splits)

lemma poll_body_zk_reply:
  assumes "status_reply srv (tr @ [Sleep 1000]) (zk_get_request c (status_endpoint queryId) accessToken) = Some v"
  shows "poll_body_zk srv c accessToken queryId tr
         = (Inr (is_terminal v),
            tr @ [Sleep 1000, Fetch (zk_get_request c (status_endpoint queryId) accessToken)])"
  using check_status_reply [OF assms]
  by (simp add: poll_body_zk_def io_bind_def sleep_def)

lemma poll_loop_zk_never:
  assumes never: "\<forall>h. \<exists>v. status_reply srv h (zk_get_request c (status_endpoint queryId) accessToken) = Some v
                     \<and> \<not> is_terminal v"
    and "count \<le> 60"
  shows "poll_loop_zk srv c accessToken queryId False count tr
         = (Inr (False, 60),
            tr @ polls (60 - count) (zk_get_request c (status_endpoint queryId) accessToken))"
  using assms(2)
proof (induction "60 - count" arbitrary: count tr)
  case 0
  then have "count = 60" by simp
  then show ?case by (simp add: poll_loop_zk.simps)
next
  case (Suc d)
  let ?req = "zk_get_request c (status_endpoint queryId) accessToken"
  from Suc have lt: "count < 60" by simp
  obtain v where v: "status_reply srv (tr @ [Sleep 1000]) ?req = Some v" "\<not> is_terminal v"
    using never by blast
  have d: "d = 60 - (count + 1)" using Suc.hyps(2) by simp
  have "60 - count = Suc (60 - (count + 1))" using lt by simp
  then have p: "polls (60 - count) ?req = Sleep 1000 # Fetch ?req # polls (60 - (count + 1)) ?req"
    by simp
  show ?case
    using Suc.hyps(1) [OF d, of "tr @ [Sleep 1000, Fetch ?req]"] lt v
    by (subst poll_loop_zk.simps) (simp add: poll_body_zk_reply [OF v(1)] p)
qed

lemma poll_loop_zk_pending_then:
  assumes pend: "\<forall>h. count_req (zk_get_request c (status_endpoint queryId) accessToken) h < m \<longrightarrow>
             (\<exists>v. status_reply srv h (zk_get_request c (status_endpoint queryId) accessToken) = Some v \<and> \<not> is_terminal v)"
    and fin: "\<forall>h. count_req (zk_get_request c (status_endpoint queryId) accessToken) h = m \<longrightarrow>
             (\<exists>v. status_reply srv h (zk_get_request c (status_endpoint queryId) accessToken) = Some v \<and> is_terminal v)"
    and "count_req (zk_get_request c (status_endpoint queryId) accessToken) tr \<le> m"
    and "count + (m - count_req (zk_get_request c (status_endpoint queryId) accessToken) tr) < 60"
  shows "poll_loop_zk srv c accessToken queryId False count tr
         = (Inr (True, count + (m - count_req (zk_get_request c (status_endpoint queryId) accessToken) tr) + 1),
            tr @ polls (Suc (m - count_req (zk_get_request c (status_endpoint queryId) accessToken) tr))
                   (zk_get_request c (status_endpoint queryId) accessToken))"
  using assms(3,4)
proof (induction "m - count_req (zk_get_request c (status_endpoint queryId) accessToken) tr" arbitrary: count tr)
  case 0
  let ?req = "zk_get_request c (status_endpoint queryId) accessToken"
  from 0 have c: "count_req ?req (tr @ [Sleep 1000]) = m" by simp
  then obtain v where v: "status_reply srv (tr @ [Sleep 1000]) ?req = Some v" "is_terminal v"
    using fin by blast
  have lt: "count < 60" using 0 by simp
  have m0: "m - count_req ?req tr = 0" using 0 by simp
  show ?case
    using lt v(2)
    by (subst poll_loop_zk.simps) (simp add: poll_body_zk_reply [OF v(1)] m0 poll_loop_zk.simps)
next
  case (Suc d)
  let ?req = "zk_get_request c (status_endpoint queryId) accessToken"
  let ?tr' = "tr @ [Sleep 1000, Fetch ?req]"
  from Suc have c: "count_req ?req (tr @ [Sleep 1000]) < m" by simp
  then obtain v where v: "status_reply srv (tr @ [Sleep 1000]) ?req = Some v" "\<not> is_terminal v"
    using pend by blast
  have lt: "count < 60" using Suc by simp
  have d: "d = m - count_req ?req ?tr'" using Suc.hyps(2) by simp
  have le: "count_req ?req ?tr' \<le> m" using Suc.hyps(2) by simp
  have b: "(count + 1) + (m - count_req ?req ?tr') < 60" using Suc.prems Suc.hyps(2) by simp
  have e: "m - count_req ?req tr = Suc (m - count_req ?req ?tr')" using Suc.hyps(2) by simp
  show ?case
    using Suc.hyps(1) [OF d le b] lt v(2)
    by (subst poll_loop_zk.simps) (simp add: poll_body_zk_reply [OF v(1)] e)
qed

lemma pending_not_terminal: "\<not> is_terminal (JStr ''pending'')"
  by (simp add: is_terminal_def)

lemma poll_loop_pending_final:
  assumes "pending_then srv (status_request queryId accessToken) k final" "is_terminal final"
    "count_req (status_request queryId accessToken) tr = 0" "k < 60"
  shows "poll_loop srv queryId accessToken False 0 tr
         = (Inr (True, Suc k), tr @ polls (Suc k) (status_request queryId accessToken))"
  using poll_loop_pending_then [of queryId accessToken k srv tr 0] assms
  by (simp add: pending_then_def pending_not_terminal)

lemma check_then_poll_pending_final:
  assumes "pending_then srv (zk_get_request c (status_endpoint queryId) accessToken) k final"
    "is_terminal final"
    "count_req (zk_get_request c (status_endpoint queryId) accessToken) tr = 0" "k < 60"
  shows "io_bind (check_status srv c accessToken queryId)
           (\<lambda>success. poll_loop_zk srv c accessToken queryId success 0) tr
         = (Inr (True, k),
            tr @ Fetch (zk_get_request c (status_endpoint queryId) accessToken)
               # polls k (zk_get_request c (status_endpoint queryId) accessToken))"
proof (cases k)
  case 0
  let ?req = "zk_get_request c (status_endpoint queryId) accessToken"
  have "status_reply srv tr ?req = Some final" using assms 0 by (simp add: pending_then_def)
  from check_status_reply [OF this] show ?thesis
    using assms(2) 0 by (simp add: io_bind_def poll_loop_zk.simps)
next
  case (Suc j)
  let ?req = "zk_get_request c (status_endpoint queryId) accessToken"
  have "status_reply srv tr ?req = Some (JStr ''pending'')"
    using assms Suc by (simp add: pending_then_def)
  from check_status_reply [OF this]
  have cs: "check_status srv c accessToken queryId tr = (Inr False, tr @ [Fetch ?req])"
    by (simp add: pending_not_terminal)
  have "poll_loop_zk srv c accessToken queryId False 0 (tr @ [Fetch ?req])
        = (Inr (True, 0 + (k - count_req ?req (tr @ [Fetch ?req])) + 1),
           (tr @ [Fetch ?req]) @ polls (Suc (k - count_req ?req (tr @ [Fetch ?req]))) ?req)"
    using assms Suc
    by (intro poll_loop_zk_pending_then) (auto simp: pending_then_def pending_not_terminal)
  then show ?thesis using cs assms(3) Suc by (simp add: io_bind_def)
qed

lemma mock_ts_pending_then:
  "pending_then (mock_ts k final) (status_request (JStr ''q1'') (JStr ''tok1'')) k (JStr final)"
  by (simp add: pending_then_def status_reply_def mock_ts_def mock_json_def status_request_def)

lemma mock_zk_pending_then:
  "pending_then (mock_zk k final)
     (zk_get_request mock_zk_client (status_endpoint (JStr ''q1'')) (JStr ''tok1'')) k (JStr final)"
  by (simp add: pending_then_def status_reply_def mock_zk_def mock_json_def zk_get_request_def
      status_endpoint_def mock_zk_client_def)

lemma mock_ts_prologue:
  "proofOfSqlQuery (mock_ts k final) q key tr
   = poll_then_results (mock_ts k final) (JStr ''q1'') (JStr ''tok1'')
       (tr @ [Fetch \<lparr>req_method = POST, url = ''https://proxy.api.makeinfinite.dev/auth/apikey'',
                headers = [(''apikey'', toString key)], body = None\<rparr>,
              Fetch \<lparr>req_method = POST, url = ''https://api.makeinfinite.dev/v1/zkquery'',
                headers = [(''Content-Type'', ''application/json''),
                           (''Authorization'', ''Bearer tok1'')],
                body = Some (JObj [(''sqlText'', q), (''sourceNetwork'', JStr ''Mainnet'')])\<rparr>])"
  by (simp add: proofOfSqlQuery_def getAccessToken_def postQuerySubmitRequest_def io_bind_def
      fetch_None mock_ts_def mock_json_def response_json_def io_return_def io_lift_def)

lemma snd_fetch: "snd (fetch srv signal req tr) = tr @ [Fetch req]"
  by (simp add: fetch_def split: prod.splits option.splits settled.splits)

lemma snd_response_json: "snd (response_json r tr) = tr"
  by (simp add: response_json_def io_throw_def io_return_def split: option.splits)

lemma snd_io_bind:
  "snd (io_bind m k tr) =
     (case m tr of (Inl e, tr') \<Rightarrow> tr' | (Inr x, tr') \<Rightarrow> snd (k x tr'))"
  by (simp add: io_bind_def split: prod.splits sum.splits)

lemma snd_getResults:
  "snd (getResults srv queryId accessToken tr) = tr @ [Fetch (results_request queryId accessToken)]"
proof -
  obtain r tr' where f: "fetch srv None (results_request queryId accessToken) tr = (r, tr')"
    by (cases "fetch srv None (results_request queryId accessToken) tr")
  then have "tr' = tr @ [Fetch (results_request queryId accessToken)]"
    using snd_fetch [of srv None "results_request queryId accessToken" tr] by simp
  then show ?thesis using f
    by (cases r) (simp_all add: getResults_def io_bind_def snd_response_json)
qed

lemma snd_adapter_call: "snd (adapter_call r tr) = tr"
  by (simp add: adapter_call_def split: sum.splits)

lemma snd_getZkQueryApi:
  "snd (getZkQueryApi srv c endpoint accessToken tr)
   = tr @ [Fetch (zk_get_request c endpoint accessToken)]"
proof -
  let ?req = "zk_get_request c endpoint accessToken"
  obtain r tr' where f: "fetch srv None ?req tr = (r, tr')"
    by (cases "fetch srv None ?req tr")
  then have "tr' = tr @ [Fetch ?req]"
    using snd_fetch [of srv None ?req tr] by simp
  then show ?thesis using f
    by (cases r) (simp_all add: getZkQueryApi_def getHttpRequest_def zk_get_request_def
        io_bind_def snd_response_json io_throw_def)
qed

lemma snd_result_then_verify:
  "snd (result_then_verify srv ad c accessToken queryId tr)
   = tr @ [Fetch (zk_get_request c (results_endpoint queryId) accessToken)]"
proof -
  obtain r tr' where f: "getZkQueryResult srv c accessToken queryId tr = (r, tr')"
    by (cases "getZkQueryResult srv c accessToken queryId tr")
  then have "tr' = tr @ [Fetch (zk_get_request c (results_endpoint queryId) accessToken)]"
    using snd_getZkQueryApi [of srv c "results_endpoint queryId" accessToken tr]
    by (simp add: getZkQueryResult_def)
  then show ?thesis using f
    by (cases r) (simp_all add: result_then_verify_def io_bind_def snd_adapter_call)
qed

lemma poll_then_verify_alt:
  "poll_then_verify srv ad c accessToken queryId =
     io_bind (io_bind (check_status srv c accessToken queryId)
                (\<lambda>success. poll_loop_zk srv c accessToken queryId success 0))
       (\<lambda>_. result_then_verify srv ad c accessToken queryId)"
  by (rule ext) (simp add: poll_then_verify_def io_bind_def split: prod.splits sum.splits)

lemma status_request_neq_results: "status_request q t \<noteq> results_request q t"
  by (simp add: status_request_def results_request_def)

lemma zk_status_neq_results:
  "zk_get_request c (status_endpoint q) t \<noteq> zk_get_request c (results_endpoint q) t"
  by (simp add: zk_get_request_def status_endpoint_def results_endpoint_def)

lemma mock_ts_getResults:
  "getResults (mock_ts k final) (JStr ''q1'') (JStr ''tok1'') tr
   = (Inr mock_rows, tr @ [Fetch (results_request (JStr ''q1'') (JStr ''tok1''))])"
  by (simp add: getResults_def io_bind_def fetch_None mock_ts_def mock_json_def
      response_json_def io_return_def results_request_def status_request_def)

lemma mock_zk_result_then_verify:
  "result_then_verify (mock_zk k final) mock_adapter mock_zk_client (JStr ''tok1'') (JStr ''q1'') tr
   = (Inr (JObj [(''rows'', mock_rows)]),
      tr @ [Fetch (zk_get_request mock_zk_client (results_endpoint (JStr ''q1'')) (JStr ''tok1''))])"
  by (simp add: result_then_verify_def getZkQueryResult_def getZkQueryApi_def getHttpRequest_def
      io_bind_def fetch_None mock_zk_def mock_json_def response_json_def io_return_def
      zk_get_request_def results_endpoint_def status_endpoint_def mock_zk_client_def
      adapter_call_def mock_adapter_def)

lemma mock_zk_prologue:
  "queryAndVerify_zk (mock_zk k final) ad mock_zk_client q JNull []
   = poll_then_verify (mock_zk k final) ad mock_zk_client (JStr ''tok1'') (JStr ''q1'')
       (mock_zk_prologue q)"
  by (simp add: queryAndVerify_zk_def getAccessToken_zk_def getAttestations_def
      querySubstrateRpc_def submitZkQueryRequest_def postZkQueryApi_def postHttpRequest_def
      io_bind_def fetch_None mock_zk_def mock_json_def response_json_def io_return_def
      io_lift_def mock_zk_client_def mock_zk_prologue_def)

lemma count_status_mock_zk_prologue [simp]:
  "count_req (zk_get_request mock_zk_client e t) (mock_zk_prologue q) = 0"
  by (simp add: mock_zk_prologue_def zk_get_request_def)

lemma mock_ts_never_terminal:
  "\<not> is_terminal (JStr final) \<Longrightarrow>
   never_terminal (mock_ts 0 final) (status_request (JStr ''q1'') (JStr ''tok1''))"
  by (simp add: never_terminal_def status_reply_def mock_ts_def mock_json_def status_request_def)

lemma mock_zk_never_terminal:
  "\<not> is_terminal (JStr final) \<Longrightarrow>
   never_terminal (mock_zk 0 final)
     (zk_get_request mock_zk_client (status_endpoint (JStr ''q1'')) (JStr ''tok1''))"
  by (simp add: never_terminal_def status_reply_def mock_zk_def mock_json_def zk_get_request_def
      status_endpoint_def mock_zk_client_def)

lemma check_then_poll_never:
  assumes "never_terminal srv (zk_get_request c (status_endpoint queryId) accessToken)"
  shows "io_bind (check_status srv c accessToken queryId)
           (\<lambda>success. poll_loop_zk srv c accessToken queryId success 0) tr
         = (Inr (False, 60),
            tr @ Fetch (zk_get_request c (status_endpoint queryId) accessToken)
               # polls 60 (zk_get_request c (status_endpoint queryId) accessToken))"
proof -
  let ?req = "zk_get_request c (status_endpoint queryId) accessToken"
  obtain v where v: "status_reply srv tr ?req = Some v" "\<not> is_terminal v"
    using assms unfolding never_terminal_def by blast
  have cs: "check_status srv c accessToken queryId tr = (Inr False, tr @ [Fetch ?req])"
    using check_status_reply [OF v(1)] v(2) by simp
  have "poll_loop_zk srv c accessToken queryId False 0 (tr @ [Fetch ?req])
        = (Inr (False, 60), (tr @ [Fetch ?req]) @ polls (60 - 0) ?req)"
    using assms unfolding never_terminal_def by (intro poll_loop_zk_never) auto
  then show ?thesis using cs by (simp add: io_bind_def)
qed

lemma io_bind_InrE:
  assumes "fst (io_bind m k tr) = Inr v"
  obtains x tr1 where "m tr = (Inr x, tr1)" "fst (k x tr1) = Inr v"
  using assms by (auto simp: io_bind_def split: prod.splits sum.splits)

lemma adapter_call_InrD: "fst (adapter_call r tr) = Inr v \<Longrightarrow> r = Inr v"
  by (auto simp: adapter_call_def split: sum.splits)

lemma adapter_call_eqD: "adapter_call r tr = (Inr x, tr') \<Longrightarrow> r = Inr x"
  by (auto simp: adapter_call_def split: sum.splits)

lemma fetch_InrD: "fetch srv signal req tr = (Inr r, tr') \<Longrightarrow> snd (srv tr req) = Fulfilled r"
  by (auto simp: fetch_def split: prod.splits if_splits settled.splits)

lemma response_json_InrD: "fst (response_json r tr) = Inr j \<Longrightarrow> json r = Some j"
  by (auto simp: response_json_def io_throw_def io_return_def split: option.splits)

lemma getProof_cf_InrD:
  assumes "getProof_cf srv c accessToken proverQuery tr = (Inr resp, tr')"
  shows "\<exists>h req r. url req = proverRootURL c \<and> snd (srv h req) = Fulfilled r
           \<and> json r = Some resp"
proof -
  from assms have "fst (getProof_cf srv c accessToken proverQuery tr) = Inr resp" by simp
  then obtain r tr1 where
    f: "postHttpRequest_cf srv (proverRootURL c)
          [(''Authorization'', ''Bearer '' @ toString accessToken),
           (''content-type'', ''application/json'')] proverQuery tr = (Inr r, tr1)"
    and j: "fst ((if \<not> ok r then io_throw (prover_error r) else response_json r) tr1) = Inr resp"
    unfolding getProof_cf_def by (rule io_bind_InrE)
  from j have "json r = Some resp"
    by (auto simp: io_throw_def split: if_splits dest: response_json_InrD)
  moreover from f have "snd (srv tr \<lparr>req_method = POST, url = proverRootURL c,
       headers = [(''Authorization'', ''Bearer '' @ toString accessToken),
                  (''content-type'', ''application/json'')],
       body = (if truthy proverQuery then Some proverQuery else None)\<rparr>) = Fulfilled r"
    unfolding postHttpRequest_cf_def by (rule fetch_InrD)
  ultimately show ?thesis
    by (intro exI [of _ tr] exI [of _ "\<lparr>req_method = POST, url = proverRootURL c,
       headers = [(''Authorization'', ''Bearer '' @ toString accessToken),
                  (''content-type'', ''application/json'')],
       body = (if truthy proverQuery then Some proverQuery else None)\<rparr>"] exI [of _ r]) simp
qed

lemma getZkQueryApi_InrD:
  assumes "getZkQueryApi srv c endpoint accessToken tr = (Inr resp, tr')"
  shows "\<exists>r. snd (srv tr (zk_get_request c endpoint accessToken)) = Fulfilled r
           \<and> json r = Some resp"
proof -
  from assms have "fst (getZkQueryApi srv c endpoint accessToken tr) = Inr resp" by simp
  then obtain r tr1 where
    f: "getHttpRequest srv (zkQueryRootURL c @ endpoint)
          [(''Authorization'', ''Bearer '' @ toString accessToken),
           (''Content-Type'', ''application/json'')] tr = (Inr r, tr1)"
    and j: "fst ((if \<not> ok r then io_throw (prover_error r) else response_json r) tr1) = Inr resp"
    unfolding getZkQueryApi_def by (rule io_bind_InrE)
  from j have "json r = Some resp"
    by (auto simp: io_throw_def split: if_splits dest: response_json_InrD)
  moreover from f have "snd (srv tr (zk_get_request c endpoint accessToken)) = Fulfilled r"
    unfolding getHttpRequest_def zk_get_request_def by (rule fetch_InrD)
  ultimately show ?thesis by blast
qed

lemma getResults_InrD:
  assumes "fst (getResults srv queryId accessToken tr) = Inr v"
  shows "\<exists>r. snd (srv tr (results_request queryId accessToken)) = Fulfilled r \<and> json r = Some v"
proof -
  from assms obtain r tr1 where
    f: "fetch srv None (results_request queryId accessToken) tr = (Inr r, tr1)"
    and j: "fst (response_json r tr1) = Inr v"
    unfolding getResults_def by (rule io_bind_InrE)
  from fetch_InrD [OF f] response_json_InrD [OF j] show ?thesis by blast
qed

lemma queryAndVerify_cf_InrD:
  assumes "fst (queryAndVerify_cf srv ad c queryString table commitmentKey tr) = Inr v"
  shows "\<exists>accessToken tc p tr2 resp tr3.
           plan_prover_query_dory ad queryString [tc] = Inr p
           \<and> getProof_cf srv c accessToken (prover_query_json p) tr2 = (Inr resp, tr3)
           \<and> verify_prover_response_dory ad resp (query_expr_json p) (commitments p) = Inr v"
  using assms unfolding queryAndVerify_cf_def
  by (elim io_bind_InrE) (blast dest: adapter_call_InrD adapter_call_eqD)

lemma queryAndVerify_rev_InrD:
  assumes "fst (queryAndVerify_rev getCommitment getProof srv ad c queryString table blockHash tr)
           = Inr v"
  shows "\<exists>accessToken tc p tr2 resp tr3.
           plan_prover_query_dory ad queryString [tc] = Inr p
           \<and> getProof accessToken (prover_query_json p) tr2 = (Inr resp, tr3)
           \<and> verify_prover_response_dory ad resp (query_expr_json p) (commitments p) = Inr v"
  using assms unfolding queryAndVerify_rev_def
  by (elim io_bind_InrE) (blast dest: adapter_call_InrD adapter_call_eqD)

lemma queryAndVerify_zk_InrD:
  assumes "fst (queryAndVerify_zk srv ad c queryString blockHash tr) = Inr v"
  shows "\<exists>accessToken queryId tr2 resp tr3.
           getZkQueryResult srv c accessToken queryId tr2 = (Inr resp, tr3)
           \<and> verify_prover_response_hyper_kzg ad resp = Inr v"
  using assms unfolding queryAndVerify_zk_def poll_then_verify_def result_then_verify_def
  by (elim io_bind_InrE) (blast dest: adapter_call_InrD adapter_call_eqD)

lemma proofOfSqlQuery_InrD:
  assumes "fst (proofOfSqlQuery srv query apiKey tr) = Inr v"
  shows "\<exists>accessToken queryId tr2. fst (getResults srv queryId accessToken tr2) = Inr v"
  using assms unfolding proofOfSqlQuery_def poll_then_results_def
  by (elim io_bind_InrE) auto

lemma mock_cf_run:
  "queryAndVerify_cf (mock_cf (JStr ''0xAB12'') 0) mock_adapter mock_cf_client
     ''select 1'' ''t'' (JStr ''0xkey'') []
   = (Inr mock_verified, mock_cf_trace)"
  by (simp add: queryAndVerify_cf_def getAccessToken_cf_def getCommitment_cf_def getProof_cf_def
      postHttpRequest_cf_def fetch_def io_bind_def io_lift_def io_return_def response_json_def
      adapter_call_def mock_cf_def mock_cf_client_def mock_adapter_def mock_cf_trace_def
      mock_verified_def)

lemma mock_zk_run:
  "queryAndVerify_zk (mock_zk 0 ''done'') mock_adapter mock_zk_client ''select 1'' JNull []
   = (Inr (JObj [(''rows'', mock_rows)]),
      mock_zk_prologue ''select 1''
       @ [Fetch (zk_get_request mock_zk_client (status_endpoint (JStr ''q1'')) (JStr ''tok1'')),
          Fetch (zk_get_request mock_zk_client (results_endpoint (JStr ''q1'')) (JStr ''tok1''))])"
proof -
  have d: "is_terminal (JStr ''done'')" by (simp add: is_terminal_def)
  have zk: "io_bind (check_status (mock_zk 0 ''done'') mock_zk_client (JStr ''tok1'') (JStr ''q1''))
      (\<lambda>success. poll_loop_zk (mock_zk 0 ''done'') mock_zk_client (JStr ''tok1'') (JStr ''q1'') success 0)
      (mock_zk_prologue ''select 1'')
      = (Inr (True, 0), mock_zk_prologue ''select 1''
          @ Fetch (zk_get_request mock_zk_client (status_endpoint (JStr ''q1'')) (JStr ''tok1''))
          # polls 0 (zk_get_request mock_zk_client (status_endpoint (JStr ''q1'')) (JStr ''tok1'')))"
    using check_then_poll_pending_final [OF mock_zk_pending_then d] by simp
  show ?thesis
    by (simp only: mock_zk_prologue poll_then_verify_alt)
       (simp add: io_bind_def [of "io_bind _ _"] zk mock_zk_result_then_verify)
qed

lemma mock_ts_run:
  "fst (proofOfSqlQuery (mock_ts 0 ''done'') (JStr ''select 1'') (JStr ''key'') []) = Inr mock_rows"
proof -
  have d: "is_terminal (JStr ''done'')" by (simp add: is_terminal_def)
  have ts: "poll_loop (mock_ts 0 ''done'') (JStr ''q1'') (JStr ''tok1'') False 0 tr
      = (Inr (True, Suc 0), tr @ polls (Suc 0) (status_request (JStr ''q1'') (JStr ''tok1'')))"
    if "count_req (status_request (JStr ''q1'') (JStr ''tok1'')) tr = 0" for tr
    using poll_loop_pending_final [OF mock_ts_pending_then d that] by simp
  show ?thesis
    by (simp add: mock_ts_prologue poll_then_results_def io_bind_def ts status_request_def
        mock_ts_getResults)
qed

lemma fetch_urls_append [simp]: "fetch_urls (xs @ ys) = fetch_urls xs @ fetch_urls ys"
  by (induction xs rule: fetch_urls.induct) auto

lemma io_bind_Inr: "m tr = (Inr x, tr1) \<Longrightarrow> io_bind m k tr = k x tr1"
  by (simp add: io_bind_def)

lemma io_bind_Inl: "m tr = (Inl e, tr1) \<Longrightarrow> io_bind m k tr = (Inl e, tr1)"
  by (simp add: io_bind_def)

lemma io_lift_Inr: "r = Inr x \<Longrightarrow> io_bind (io_lift r) k tr = k x tr"
  by (simp add: io_bind_def io_lift_def)

lemma adapter_call_Inr: "r = Inr x \<Longrightarrow> io_bind (adapter_call r) k tr = k x tr"
  by (simp add: io_bind_def adapter_call_def)

lemma adapter_call_Inl: "r = Inl x \<Longrightarrow> io_bind (adapter_call r) k tr = (Inl (Thrown x), tr)"
  by (simp add: io_bind_def adapter_call_def)

lemma mock_cf_auth:
  "getAccessToken_cf (mock_cf rr ms) mock_cf_client [] =
     (Inr (JObj [(''accessToken'', JStr ''tok1'')]), take (Suc 0) mock_cf_trace)"
  by (simp add: getAccessToken_cf_def postHttpRequest_cf_def fetch_def io_bind_def
      response_json_def io_return_def mock_cf_def mock_cf_client_def mock_cf_trace_def)

lemma mock_zk_auth:
  "getAccessToken_zk (mock_cf rr ms) mock_cf_client [] =
     (Inr (JObj [(''accessToken'', JStr ''tok1'')]), take (Suc 0) mock_cf_trace)"
  by (simp add: getAccessToken_zk_def postHttpRequest_def fetch_def io_bind_def
      response_json_def io_return_def mock_cf_def mock_cf_client_def mock_cf_trace_def)

lemma mock_cf_commitment:
  "getCommitment_cf (mock_cf rr ms) mock_cf_client (JStr ''0xkey'') (take (Suc 0) mock_cf_trace) =
     (Inr (JObj [(''result'', rr)]), take 2 mock_cf_trace)"
  by (simp add: getCommitment_cf_def postHttpRequest_cf_def fetch_def io_bind_def
      response_json_def io_return_def mock_cf_def mock_cf_client_def mock_cf_trace_def)

lemma mock_cf_proof:
  "ms \<le> 3000 \<Longrightarrow>
   getProof_cf (mock_cf rr ms) mock_cf_client (JStr ''tok1'') (JObj [(''query'', JStr ''select 1'')])
     (take 2 mock_cf_trace) = (Inr mock_rows, mock_cf_trace)"
  by (simp add: getProof_cf_def postHttpRequest_cf_def fetch_def io_bind_def
      response_json_def io_return_def mock_cf_def mock_cf_client_def mock_cf_trace_def)

lemma io_lift_Inl: "r = Inl e \<Longrightarrow> io_bind (io_lift r) k tr = (Inl e, tr)"
  by (simp add: io_bind_def io_lift_def)

lemma snd_io_throw: "snd (io_throw e tr) = tr"
  by (simp add: io_throw_def)

lemma snd_io_lift: "snd (io_lift r tr) = tr"
  by (simp add: io_lift_def)

lemma snd_postHttpRequest_cf:
  "snd (postHttpRequest_cf srv u hs d tr)
   = tr @ [Fetch \<lparr>req_method = POST, url = u, headers = hs,
                  body = (if truthy d then Some d else None)\<rparr>]"
  by (simp add: postHttpRequest_cf_def snd_fetch)

lemma post_cf_then_json_urls:
  "fetch_urls (snd (io_bind (postHttpRequest_cf srv u hs d)
      (\<lambda>r. if \<not> ok r then io_throw (err r) else response_json r) tr))
   = fetch_urls tr @ [u]"
proof -
  obtain r tr' where f: "postHttpRequest_cf srv u hs d tr = (r, tr')"
    by (cases "postHttpRequest_cf srv u hs d tr")
  then have "fetch_urls tr' = fetch_urls tr @ [u]"
    using snd_postHttpRequest_cf [of srv u hs d tr] by simp
  then show ?thesis using f
    by (cases r) (simp_all add: io_bind_def snd_response_json snd_io_throw)
qed

lemma getAccessToken_cf_urls:
  "fetch_urls (snd (getAccessToken_cf srv c tr))
   = fetch_urls tr @ (if truthy (sxtApiKey c) then [authRootURL c] else [])"
  by (simp add: getAccessToken_cf_def post_cf_then_json_urls snd_io_throw)

lemma getAccessToken_cf_Inr_truthy:
  "getAccessToken_cf srv c tr = (Inr a, tr1) \<Longrightarrow> truthy (sxtApiKey c)"
  by (auto simp: getAccessToken_cf_def io_throw_def split: if_splits)

lemma getCommitment_cf_urls:
  "fetch_urls (snd (getCommitment_cf srv c k tr)) = fetch_urls tr @ [substrateNodeURL c]"
  by (simp add: getCommitment_cf_def post_cf_then_json_urls)

lemma getProof_cf_urls:
  "fetch_urls (snd (getProof_cf srv c tok pq tr)) = fetch_urls tr @ [proverRootURL c]"
  by (simp add: getProof_cf_def post_cf_then_json_urls)

lemma getProof_cf_urlsD:
  "getProof_cf srv c tok pq tr = (r, tr') \<Longrightarrow> fetch_urls tr' = fetch_urls tr @ [proverRootURL c]"
  using getProof_cf_urls [of srv c tok pq tr] by simp

lemma queryAndVerify_cf_urls:
  "fetch_urls (snd (queryAndVerify_cf srv ad c queryString table commitmentKey tr))
     \<in> {fetch_urls tr, fetch_urls tr @ [authRootURL c],
        fetch_urls tr @ [authRootURL c, substrateNodeURL c],
        fetch_urls tr @ [authRootURL c, substrateNodeURL c, proverRootURL c]}"
proof (cases "getAccessToken_cf srv c tr")
  case (Pair r1 tr1)
  have u1: "fetch_urls tr1 = fetch_urls tr @ (if truthy (sxtApiKey c) then [authRootURL c] else [])"
    using getAccessToken_cf_urls [of srv c tr] Pair by simp
  show ?thesis
  proof (cases r1)
    case (Inl e)
    then show ?thesis using Pair u1 by (simp add: queryAndVerify_cf_def io_bind_Inl)
  next
    case (Inr a)
    then have k: "truthy (sxtApiKey c)" using Pair getAccessToken_cf_Inr_truthy by blast
    show ?thesis
    proof (cases "get_prop a ''accessToken''")
      case (Inl e)
      then show ?thesis using Pair Inr u1 k
        by (simp add: queryAndVerify_cf_def io_bind_Inr io_lift_Inl)
    next
      case tok: (Inr tok)
      obtain r2 tr2 where c2: "getCommitment_cf srv c commitmentKey tr1 = (r2, tr2)"
        by (cases "getCommitment_cf srv c commitmentKey tr1")
      have u2: "fetch_urls tr2 = fetch_urls tr @ [authRootURL c, substrateNodeURL c]"
        using getCommitment_cf_urls [of srv c commitmentKey tr1] c2 u1 k by simp
      have rest: "fetch_urls (snd (io_bind (io_lift (get_prop cr ''result''))
           (\<lambda>result. io_bind (io_lift (slice2 result))
           (\<lambda>commitment. io_bind (adapter_call (new_TableRefAndCommitment ad table commitment))
           (\<lambda>tc. io_bind (adapter_call (plan_prover_query_dory ad queryString [tc]))
           (\<lambda>plannedProverQuery.
              io_bind (getProof_cf srv c tok (prover_query_json plannedProverQuery))
           (\<lambda>proverResponseJson.
              adapter_call (verify_prover_response_dory ad proverResponseJson
                (query_expr_json plannedProverQuery) (commitments plannedProverQuery))))))) tr2))
         \<in> {fetch_urls tr2, fetch_urls tr2 @ [proverRootURL c]}" for cr
        by (auto simp: snd_io_bind io_lift_def adapter_call_def
            split: prod.splits sum.splits dest: getProof_cf_urlsD)
      show ?thesis
      proof (cases r2)
        case (Inl e)
        then show ?thesis using Pair Inr tok c2 u2
          by (simp add: queryAndVerify_cf_def io_bind_Inr io_lift_Inr io_bind_Inl)
      next
        case cr: (Inr cr)
        have "queryAndVerify_cf srv ad c queryString table commitmentKey tr
          = io_bind (io_lift (get_prop cr ''result''))
           (\<lambda>result. io_bind (io_lift (slice2 result))
           (\<lambda>commitment. io_bind (adapter_call (new_TableRefAndCommitment ad table commitment))
           (\<lambda>tc. io_bind (adapter_call (plan_prover_query_dory ad queryString [tc]))
           (\<lambda>plannedProverQuery.
              io_bind (getProof_cf srv c tok (prover_query_json plannedProverQuery))
           (\<lambda>proverResponseJson.
              adapter_call (verify_prover_response_dory ad proverResponseJson
                (query_expr_json plannedProverQuery) (commitments plannedProverQuery))))))) tr2"
          using Pair Inr tok c2 cr
          by (simp add: queryAndVerify_cf_def io_bind_Inr io_lift_Inr)
        with rest [of cr] show ?thesis
          using u2 by auto
      qed
    qed
  qed
qed

lemma io_bind_eq_InrE:
  assumes "io_bind m k tr = (Inr v, tr')"
  obtains x tr1 where "m tr = (Inr x, tr1)" "k x tr1 = (Inr v, tr')"
  using assms by (auto simp: io_bind_def split: prod.splits sum.splits)

lemma io_lift_trD: "io_lift r tr = (x, tr') \<Longrightarrow> tr' = tr"
  by (simp add: io_lift_def)

lemma adapter_call_trD: "adapter_call r tr = (x, tr') \<Longrightarrow> tr' = tr"
  by (auto simp: adapter_call_def split: sum.splits)

lemma getAccessToken_cf_urlsD:
  "getAccessToken_cf srv c tr = (Inr a, tr') \<Longrightarrow> fetch_urls tr' = fetch_urls tr @ [authRootURL c]"
  using getAccessToken_cf_urls [of srv c tr] getAccessToken_cf_Inr_truthy [of srv c tr a tr']
  by simp

lemma getCommitment_cf_urlsD:
  "getCommitment_cf srv c k tr = (r, tr') \<Longrightarrow> fetch_urls tr' = fetch_urls tr @ [substrateNodeURL c]"
  using getCommitment_cf_urls [of srv c k tr] by simp

lemma queryAndVerify_cf_Inr_urls:
  assumes "queryAndVerify_cf srv ad c queryString table commitmentKey tr = (Inr v, tr')"
  shows "fetch_urls tr' = fetch_urls tr @ [authRootURL c, substrateNodeURL c, proverRootURL c]"
  using assms unfolding queryAndVerify_cf_def
  by (elim io_bind_eq_InrE)
     (auto dest!: io_lift_trD adapter_call_trD getAccessToken_cf_urlsD getCommitment_cf_urlsD
        getProof_cf_urlsD)

lemma mock_cf_proof_late:
  "3000 < ms \<Longrightarrow>
   getProof_cf (mock_cf rr ms) mock_cf_client (JStr ''tok1'') (JObj [(''query'', JStr ''select 1'')])
     (take 2 mock_cf_trace) = (Inl AbortError, mock_cf_trace)"
  by (simp add: getProof_cf_def postHttpRequest_cf_def fetch_def io_bind_def
      mock_cf_def mock_cf_client_def mock_cf_trace_def)

lemma late_aborts_pure: "(\<And>tr. snd (m tr) = tr) \<Longrightarrow> late_aborts srv m"
  unfolding late_aborts_def by (metis append_Nil2 leD snd_conv)

lemma late_aborts_fetch: "late_aborts srv (fetch srv (Some 3000) req)"
  unfolding late_aborts_def
proof (intro allI impI conjI)
  fix tr r tr'
  assume f: "fetch srv (Some 3000) req tr = (r, tr')"
  then have tr': "tr' = tr @ [Fetch req]"
    using snd_fetch [of srv "Some 3000" req tr] by simp
  then show "\<exists>ev. tr' = tr @ ev" by blast
  fix i q
  assume a: "length tr \<le> i \<and> i < length tr' \<and> tr' ! i = Fetch q
      \<and> 3000 < fst (srv (take i tr') q)"
  then have i: "i = length tr" using tr' by simp
  then have q: "q = req" using a tr' by simp
  have "3000 < fst (srv tr req)" using a i q tr' by simp
  then have "r = Inl AbortError"
    using f by (auto simp: fetch_def split: prod.splits)
  then show "r = Inl AbortError" "Suc i = length tr'" using i tr' by simp_all
qed

lemma late_aborts_bind:
  assumes m: "late_aborts srv m" and k: "\<And>x. late_aborts srv (k x)"
  shows "late_aborts srv (io_bind m k)"
  unfolding late_aborts_def
proof (intro allI impI)
  fix tr r tr'
  assume b: "io_bind m k tr = (r, tr')"
  obtain r1 tr1 where m1: "m tr = (r1, tr1)" by (cases "m tr")
  from m m1 obtain ev1 where ev1: "tr1 = tr @ ev1"
    unfolding late_aborts_def by blast
  show "(\<exists>ev. tr' = tr @ ev)
        \<and> (\<forall>i req. length tr \<le> i \<and> i < length tr' \<and> tr' ! i = Fetch req
              \<and> 3000 < fst (srv (take i tr') req)
            \<longrightarrow> r = Inl AbortError \<and> Suc i = length tr')"
  proof (cases r1)
    case (Inl e)
    then have "r = Inl e" "tr' = tr1" using b m1 by (simp_all add: io_bind_def)
    then show ?thesis using m m1 Inl unfolding late_aborts_def by blast
  next
    case (Inr x)
    then have kx: "k x tr1 = (r, tr')" using b m1 by (simp add: io_bind_def)
    from k [of x] kx obtain ev2 where ev2: "tr' = tr1 @ ev2"
      unfolding late_aborts_def by blast
    have "\<exists>ev. tr' = tr @ ev" using ev1 ev2 by simp
    moreover have "r = Inl AbortError \<and> Suc i = length tr'"
      if a: "length tr \<le> i \<and> i < length tr' \<and> tr' ! i = Fetch req
              \<and> 3000 < fst (srv (take i tr') req)" for i req
    proof (cases "i < length tr1")
      case True
      then have "tr' ! i = tr1 ! i" "take i tr' = take i tr1"
        using ev2 by (simp_all add: nth_append)
      with a True have "length tr \<le> i \<and> i < length tr1 \<and> tr1 ! i = Fetch req
              \<and> 3000 < fst (srv (take i tr1) req)" by simp
      with m m1 have "r1 = Inl AbortError" unfolding late_aborts_def by blast
      with Inr show ?thesis by simp
    next
      case False
      with a have "length tr1 \<le> i \<and> i < length tr' \<and> tr' ! i = Fetch req
              \<and> 3000 < fst (srv (take i tr') req)" by simp
      with k [of x] kx show ?thesis unfolding late_aborts_def by blast
    qed
    ultimately show ?thesis by blast
  qed
qed

lemma late_aborts_if:
  "late_aborts srv m \<Longrightarrow> late_aborts srv n \<Longrightarrow> late_aborts srv (if b then m else n)"
  by simp

lemma late_aborts_post_cf: "late_aborts srv (postHttpRequest_cf srv u hs d)"
  unfolding postHttpRequest_cf_def by (rule late_aborts_fetch)

lemma late_aborts_queryAndVerify_cf:
  "late_aborts srv (queryAndVerify_cf srv ad c queryString table commitmentKey)"
  unfolding queryAndVerify_cf_def getAccessToken_cf_def getCommitment_cf_def getProof_cf_def
  by (intro late_aborts_bind late_aborts_if late_aborts_post_cf late_aborts_pure
      snd_io_throw snd_io_lift snd_adapter_call snd_response_json)

lemma fetch_late:
  "ms < fst (srv tr req) \<Longrightarrow> fetch srv (Some ms) req tr = (Inl AbortError, tr @ [Fetch req])"
  by (cases "srv tr req") (simp add: fetch_def)

lemma mock_cf_run_late:
  "queryAndVerify_cf (mock_cf (JStr ''0xAB12'') 5000) mock_adapter mock_cf_client
     ''select 1'' ''t'' (JStr ''0xkey'') []
   = (Inl AbortError, mock_cf_trace)"
  by (simp add: queryAndVerify_cf_def io_bind_Inr io_bind_Inl io_lift_Inr adapter_call_Inr
      mock_cf_auth mock_cf_commitment mock_cf_proof_late mock_adapter_def)

lemma fetch_None_delayed: "fetch (delayed d srv) None = fetch srv None"
  by (intro ext) (simp add: fetch_None delayed_def)

lemma postHttpRequest_delayed: "postHttpRequest (delayed d srv) = postHttpRequest srv"
  by (intro ext) (simp add: postHttpRequest_def fetch_None_delayed)

lemma getHttpRequest_delayed: "getHttpRequest (delayed d srv) = getHttpRequest srv"
  by (intro ext) (simp add: getHttpRequest_def fetch_None_delayed)

lemma check_status_delayed: "check_status (delayed d srv) = check_status srv"
  by (intro ext)
     (simp add: check_status_def getZkQueryStatus_def getZkQueryApi_def getHttpRequest_delayed)

lemma poll_loop_zk_delayed:
  "poll_loop_zk (delayed d srv) c accessToken queryId success count tr
   = poll_loop_zk srv c accessToken queryId success count tr"
proof (induction "60 - count" arbitrary: count success tr)
  case 0
  then show ?case by (simp add: poll_loop_zk.simps)
next
  case (Suc n)
  then have "n = 60 - (count + 1)" by simp
  from Suc.hyps(1) [OF this] show ?case
    by (subst (1 2) poll_loop_zk.simps)
       (simp add: poll_body_zk_def check_status_delayed split: prod.splits sum.splits)
qed

lemma poll_loop_zk_delayed_fun: "poll_loop_zk (delayed d srv) = poll_loop_zk srv"
  by (intro ext) (rule poll_loop_zk_delayed)

lemma getAccessToken_zk_delayed: "getAccessToken_zk (delayed d srv) = getAccessToken_zk srv"
  by (intro ext) (simp only: getAccessToken_zk_def postHttpRequest_delayed)

lemma getAttestations_delayed: "getAttestations (delayed d srv) = getAttestations srv"
  by (intro ext) (simp only: getAttestations_def querySubstrateRpc_def postHttpRequest_delayed)

lemma submitZkQueryRequest_delayed:
  "submitZkQueryRequest (delayed d srv) = submitZkQueryRequest srv"
  by (intro ext) (simp only: submitZkQueryRequest_def postZkQueryApi_def postHttpRequest_delayed)

lemma getZkQueryResult_delayed: "getZkQueryResult (delayed d srv) = getZkQueryResult srv"
  by (intro ext) (simp only: getZkQueryResult_def getZkQueryApi_def getHttpRequest_delayed)

lemma queryAndVerify_zk_delayed:
  "queryAndVerify_zk (delayed d srv) ad c queryString blockHash
   = queryAndVerify_zk srv ad c queryString blockHash"
  by (simp only: queryAndVerify_zk_def poll_then_verify_def result_then_verify_def
      getAccessToken_zk_delayed getAttestations_delayed submitZkQueryRequest_delayed
      getZkQueryResult_delayed check_status_delayed poll_loop_zk_delayed_fun)

lemma no_abort_bind:
  "no_abort m \<Longrightarrow> (\<And>x. no_abort (k x)) \<Longrightarrow> no_abort (io_bind m k)"
  unfolding no_abort_def by (auto simp: io_bind_def split: prod.splits sum.splits) (metis fst_conv)+

lemma no_abort_if: "no_abort m \<Longrightarrow> no_abort n \<Longrightarrow> no_abort (if b then m else n)"
  by simp

lemma no_abort_fetch: "no_abort (fetch srv None req)"
  unfolding no_abort_def by (simp add: fetch_None split: settled.splits)

lemma no_abort_throw: "e \<noteq> AbortError \<Longrightarrow> no_abort (io_throw e)"
  unfolding no_abort_def by (simp add: io_throw_def)

lemma no_abort_return: "no_abort (io_return x)"
  unfolding no_abort_def by (simp add: io_return_def)

lemma no_abort_response_json: "no_abort (response_json r)"
  unfolding no_abort_def
  by (simp add: response_json_def io_throw_def io_return_def split: option.splits)

lemma no_abort_get_prop: "no_abort (io_lift (get_prop v k))"
  unfolding no_abort_def by (cases v) (simp_all add: io_lift_def)

lemma no_abort_adapter_call: "no_abort (adapter_call r)"
  unfolding no_abort_def by (simp add: adapter_call_def split: sum.splits)

lemma no_abort_sleep: "no_abort (sleep ms)"
  unfolding no_abort_def by (simp add: sleep_def)

lemma no_abort_postHttpRequest: "no_abort (postHttpRequest srv u hs d)"
  unfolding postHttpRequest_def by (rule no_abort_fetch)

lemma no_abort_getHttpRequest: "no_abort (getHttpRequest srv u hs)"
  unfolding getHttpRequest_def by (rule no_abort_fetch)

lemmas no_abort_intros =
  no_abort_bind no_abort_if no_abort_postHttpRequest no_abort_getHttpRequest no_abort_throw
  no_abort_return no_abort_response_json no_abort_get_prop no_abort_adapter_call no_abort_sleep

lemma no_abort_check_status: "no_abort (check_status srv c accessToken queryId)"
  unfolding check_status_def getZkQueryStatus_def getZkQueryApi_def prover_error_def
  by (intro no_abort_intros) simp

lemma no_abort_poll_loop_zk:
  "fst (poll_loop_zk srv c accessToken queryId success count tr) \<noteq> Inl AbortError"
proof (induction "60 - count" arbitrary: count success tr)
  case 0
  then show ?case by (simp add: poll_loop_zk.simps)
next
  case (Suc n)
  then have n: "n = 60 - (count + 1)" by simp
  have body: "fst (poll_body_zk srv c accessToken queryId tr) \<noteq> Inl AbortError"
    using no_abort_bind [OF no_abort_sleep, of "\<lambda>_. check_status srv c accessToken queryId"]
      no_abort_check_status [of srv c accessToken queryId]
    by (simp add: poll_body_zk_def no_abort_def)
  show ?case
    using Suc.hyps(1) [OF n] body
    by (subst poll_loop_zk.simps) (auto split: prod.splits sum.splits)
qed

lemma no_abort_queryAndVerify_zk: "no_abort (queryAndVerify_zk srv ad c queryString blockHash)"
proof -
  have loop: "no_abort (poll_loop_zk srv c accessToken queryId success 0)"
    for accessToken queryId success
    unfolding no_abort_def by (simp add: no_abort_poll_loop_zk)
  show ?thesis
    unfolding queryAndVerify_zk_def poll_then_verify_def result_then_verify_def
      getAccessToken_zk_def getAttestations_def querySubstrateRpc_def submitZkQueryRequest_def
      postZkQueryApi_def getZkQueryResult_def getZkQueryApi_def
      auth_error_def rpc_error_def zk_api_error_def prover_error_def
    by (intro no_abort_intros no_abort_check_status loop) simp_all
qed

lemma snd_fetch_then_pure:
  assumes "\<And>r t. snd (k r t) = t"
  shows "snd (io_bind (fetch srv signal req) k tr) = tr @ [Fetch req]"
proof -
  obtain r tr' where f: "fetch srv signal req tr = (r, tr')"
    by (cases "fetch srv signal req tr")
  then have "tr' = tr @ [Fetch req]" using snd_fetch [of srv signal req tr] by simp
  then show ?thesis using f assms by (cases r) (simp_all add: io_bind_def)
qed

lemma snd_json_then_prop: "snd (io_bind (response_json r) (\<lambda>j. io_lift (get_prop j p)) t) = t"
  by (simp add: io_bind_def response_json_def io_throw_def io_return_def io_lift_def
      split: option.splits)

lemma snd_ok_then_json: "snd ((if \<not> ok r then io_throw e else response_json r) t) = t"
  by (simp add: snd_io_throw snd_response_json)

lemma snd_getAccessToken:
  "snd (getAccessToken srv apiKey tr)
   = tr @ [Fetch \<lparr>req_method = POST, url = ''https://proxy.api.makeinfinite.dev/auth/apikey'',
                  headers = [(''apikey'', toString apiKey)], body = None\<rparr>]"
  unfolding getAccessToken_def by (rule snd_fetch_then_pure) (rule snd_json_then_prop)

lemma snd_postQuerySubmitRequest:
  "snd (postQuerySubmitRequest srv sqlText accessToken tr)
   = tr @ [Fetch \<lparr>req_method = POST, url = ''https://api.makeinfinite.dev/v1/zkquery'',
         headers = [(''Content-Type'', ''application/json''),
                    (''Authorization'', ''Bearer '' @ toString accessToken)],
         body = Some (JObj [(''sqlText'', sqlText), (''sourceNetwork'', JStr ''Mainnet'')])\<rparr>]"
  unfolding postQuerySubmitRequest_def by (rule snd_fetch_then_pure) (rule snd_json_then_prop)

lemma count_status_getAccessToken:
  "getAccessToken srv apiKey tr = (r, tr')
   \<Longrightarrow> count_req (status_request q t) tr' = count_req (status_request q t) tr"
  using snd_getAccessToken [of srv apiKey tr] by (simp add: status_request_def)

lemma count_status_postQuerySubmitRequest:
  "postQuerySubmitRequest srv sqlText accessToken tr = (r, tr')
   \<Longrightarrow> count_req (status_request q t) tr' = count_req (status_request q t) tr"
  using snd_postQuerySubmitRequest [of srv sqlText accessToken tr]
  by (simp add: status_request_def)

lemma snd_post_then_json:
  "snd (io_bind (postHttpRequest srv u hs d)
      (\<lambda>r. if \<not> ok r then io_throw (err r) else response_json r) tr)
   = tr @ [Fetch \<lparr>req_method = POST, url = u, headers = hs,
                  body = (if truthy d then Some d else None)\<rparr>]"
  unfolding postHttpRequest_def by (rule snd_fetch_then_pure) (rule snd_ok_then_json)

lemma count_get_post_then_json:
  "count_req (zk_get_request z e t)
     (snd (io_bind (postHttpRequest srv u hs d)
        (\<lambda>r. if \<not> ok r then io_throw (err r) else response_json r) tr))
   = count_req (zk_get_request z e t) tr"
  by (simp add: snd_post_then_json zk_get_request_def)

lemma count_get_getAccessToken_zk:
  assumes "getAccessToken_zk srv c tr = (r, tr')"
  shows "count_req (zk_get_request z e t) tr' = count_req (zk_get_request z e t) tr"
proof -
  have "count_req (zk_get_request z e t) (snd (getAccessToken_zk srv c tr))
        = count_req (zk_get_request z e t) tr"
    by (simp add: getAccessToken_zk_def count_get_post_then_json snd_io_throw)
  then show ?thesis using assms by simp
qed

lemma count_get_getAttestations:
  assumes "getAttestations srv c blockHash tr = (r, tr')"
  shows "count_req (zk_get_request z e t) tr' = count_req (zk_get_request z e t) tr"
proof -
  have "count_req (zk_get_request z e t) (snd (getAttestations srv c blockHash tr))
        = count_req (zk_get_request z e t) tr"
    by (simp add: getAttestations_def querySubstrateRpc_def count_get_post_then_json)
  then show ?thesis using assms by simp
qed

lemma count_get_submitZkQueryRequest:
  assumes "submitZkQueryRequest srv c accessToken d tr = (r, tr')"
  shows "count_req (zk_get_request z e t) tr' = count_req (zk_get_request z e t) tr"
proof -
  have "count_req (zk_get_request z e t) (snd (submitZkQueryRequest srv c accessToken d tr))
        = count_req (zk_get_request z e t) tr"
    by (simp add: submitZkQueryRequest_def postZkQueryApi_def count_get_post_then_json)
  then show ?thesis using assms by simp
qed

lemma poll_then_results_pending_final:
  assumes "pending_then srv (status_request queryId accessToken) k final" "is_terminal final"
    "count_req (status_request queryId accessToken) tr = 0" "k < 60"
  shows "poll_then_results srv queryId accessToken tr
         = getResults srv queryId accessToken
             (tr @ polls (Suc k) (status_request queryId accessToken))"
  using poll_loop_pending_final [OF assms]
  by (simp add: poll_then_results_def io_bind_def)

lemma poll_then_verify_pending_final:
  assumes "pending_then srv (zk_get_request c (status_endpoint queryId) accessToken) k final"
    "is_terminal final"
    "count_req (zk_get_request c (status_endpoint queryId) accessToken) tr = 0" "k < 60"
  shows "poll_then_verify srv ad c accessToken queryId tr
         = result_then_verify srv ad c accessToken queryId
             (tr @ Fetch (zk_get_request c (status_endpoint queryId) accessToken)
                 # polls k (zk_get_request c (status_endpoint queryId) accessToken))"
  by (subst poll_then_verify_alt, subst io_bind_def)
     (simp add: check_then_poll_pending_final [OF assms])

lemma count_status_after_results:
  "count_req (status_request q t) (snd (getResults srv q t tr))
   = count_req (status_request q t) tr"
  using status_request_neq_results [of q t] by (simp add: snd_getResults)

lemma count_status_after_verify:
  "count_req (zk_get_request c (status_endpoint q) t) (snd (result_then_verify srv ad c t q tr))
   = count_req (zk_get_request c (status_endpoint q) t) tr"
  using zk_status_neq_results [of c q t] by (simp add: snd_result_then_verify)

lemma done_terminal: "is_terminal (JStr ''done'')"
  by (simp add: is_terminal_def)

lemma mock_ts_token:
  "getAccessToken (mock_ts k final) apiKey tr
   = (Inr (JStr ''tok1''),
      tr @ [Fetch \<lparr>req_method = POST, url = ''https://proxy.api.makeinfinite.dev/auth/apikey'',
                  headers = [(''apikey'', toString apiKey)], body = None\<rparr>])"
  by (simp add: getAccessToken_def io_bind_def fetch_None mock_ts_def mock_json_def
      response_json_def io_return_def io_lift_def)

lemma mock_ts_submit:
  "postQuerySubmitRequest (mock_ts k final) q (JStr ''tok1'') tr
   = (Inr (JStr ''q1''),
      tr @ [Fetch \<lparr>req_method = POST, url = ''https://api.makeinfinite.dev/v1/zkquery'',
                headers = [(''Content-Type'', ''application/json''),
                           (''Authorization'', ''Bearer tok1'')],
                body = Some (JObj [(''sqlText'', q), (''sourceNetwork'', JStr ''Mainnet'')])\<rparr>])"
  by (simp add: postQuerySubmitRequest_def io_bind_def fetch_None mock_ts_def mock_json_def
      response_json_def io_return_def io_lift_def)

lemma mock_zk_token:
  "getAccessToken_zk (mock_zk k final) mock_zk_client []
   = (Inr (JObj [(''accessToken'', JStr ''tok1'')]), take (Suc 0) (mock_zk_prologue q))"
  by (simp add: getAccessToken_zk_def postHttpRequest_def io_bind_def fetch_None mock_zk_def
      mock_json_def response_json_def io_return_def mock_zk_client_def mock_zk_prologue_def)

lemma mock_zk_attestations:
  "getAttestations (mock_zk k final) mock_zk_client JNull (take (Suc 0) (mock_zk_prologue q))
   = (Inr (JObj [(''result'', JObj [(''attestationsFor'', JStr ''0xb10c'')])]),
      take 2 (mock_zk_prologue q))"
  by (simp add: getAttestations_def querySubstrateRpc_def postHttpRequest_def io_bind_def
      fetch_None mock_zk_def mock_json_def response_json_def io_return_def mock_zk_client_def
      mock_zk_prologue_def)

lemma mock_zk_submit:
  "submitZkQueryRequest (mock_zk k final) mock_zk_client (JStr ''tok1'')
     (JObj [(''sqlText'', JStr q), (''sourceNetwork'', JStr ''mainnet''),
            (''commitmentScheme'', JStr ''HYPER_KZG''), (''blockHash'', JStr ''0xb10c''),
            (''timeout'', JNull)]) (take 2 (mock_zk_prologue q))
   = (Inr (JObj [(''queryId'', JStr ''q1'')]), mock_zk_prologue q)"
  by (simp add: submitZkQueryRequest_def postZkQueryApi_def postHttpRequest_def io_bind_def
      fetch_None mock_zk_def mock_json_def response_json_def io_return_def mock_zk_client_def
      mock_zk_prologue_def)

lemma abort_means_late_pure:
  "no_abort m \<Longrightarrow> (\<And>tr. snd (m tr) = tr) \<Longrightarrow> abort_means_late srv m"
  unfolding abort_means_late_def no_abort_def by (metis fst_conv order_refl snd_conv)

lemma abort_means_late_fetch: "abort_means_late srv (fetch srv (Some 3000) req)"
  unfolding abort_means_late_def
proof (intro allI impI conjI)
  fix tr r tr'
  assume f: "fetch srv (Some 3000) req tr = (r, tr')"
  then have tr': "tr' = tr @ [Fetch req]"
    using snd_fetch [of srv "Some 3000" req tr] by simp
  then show "length tr \<le> length tr'" by simp
  assume "r = Inl AbortError"
  with f have "3000 < fst (srv tr req)"
    by (cases "srv tr req") (auto simp: fetch_def split: if_splits settled.splits)
  with tr' show "\<exists>h q. tr' = h @ [Fetch q] \<and> length tr \<le> length h \<and> 3000 < fst (srv h q)"
    by blast
qed

lemma abort_means_late_bind:
  assumes m: "abort_means_late srv m" and k: "\<And>x. abort_means_late srv (k x)"
  shows "abort_means_late srv (io_bind m k)"
  unfolding abort_means_late_def
proof (intro allI impI)
  fix tr r tr'
  assume b: "io_bind m k tr = (r, tr')"
  obtain r1 tr1 where m1: "m tr = (r1, tr1)" by (cases "m tr")
  from m m1 have l1: "length tr \<le> length tr1" unfolding abort_means_late_def by blast
  show "length tr \<le> length tr'
        \<and> (r = Inl AbortError
            \<longrightarrow> (\<exists>h req. tr' = h @ [Fetch req] \<and> length tr \<le> length h
                    \<and> 3000 < fst (srv h req)))"
  proof (cases r1)
    case (Inl e)
    then have "r = Inl e" "tr' = tr1" using b m1 by (simp_all add: io_bind_def)
    then show ?thesis using m m1 Inl unfolding abort_means_late_def by blast
  next
    case (Inr x)
    then have kx: "k x tr1 = (r, tr')" using b m1 by (simp add: io_bind_def)
    from k [of x] kx have l2: "length tr1 \<le> length tr'"
      and ab: "r = Inl AbortError
            \<longrightarrow> (\<exists>h req. tr' = h @ [Fetch req] \<and> length tr1 \<le> length h
                    \<and> 3000 < fst (srv h req))"
      unfolding abort_means_late_def by blast+
    have "\<exists>h req. tr' = h @ [Fetch req] \<and> length tr \<le> length h \<and> 3000 < fst (srv h req)"
      if "r = Inl AbortError"
    proof -
      from ab that obtain h req where h: "tr' = h @ [Fetch req]" "length tr1 \<le> length h"
        "3000 < fst (srv h req)" by blast
      from h(2) l1 have "length tr \<le> length h" by simp
      with h show ?thesis by blast
    qed
    moreover from l1 l2 have "length tr \<le> length tr'" by simp
    ultimately show ?thesis by blast
  qed
qed

lemma abort_means_late_if:
  "abort_means_late srv m \<Longrightarrow> abort_means_late srv n
   \<Longrightarrow> abort_means_late srv (if b then m else n)"
  by simp

lemma abort_means_late_post_cf: "abort_means_late srv (postHttpRequest_cf srv u hs d)"
  unfolding postHttpRequest_cf_def by (rule abort_means_late_fetch)

lemma no_abort_slice2: "no_abort (io_lift (slice2 v))"
  unfolding no_abort_def by (cases v) (simp_all add: io_lift_def)

lemma abort_means_late_queryAndVerify_cf:
  "abort_means_late srv (queryAndVerify_cf srv ad c queryString table commitmentKey)"
  unfolding queryAndVerify_cf_def getAccessToken_cf_def getCommitment_cf_def getProof_cf_def
    auth_error_def rpc_error_def prover_error_def
  by (intro abort_means_late_bind abort_means_late_if abort_means_late_post_cf
      abort_means_late_pure no_abort_throw no_abort_response_json no_abort_get_prop
      no_abort_slice2 no_abort_adapter_call
      snd_io_throw snd_io_lift snd_adapter_call snd_response_json) simp_all

lemma fetch_in_time:
  "\<not> ms < fst (srv tr req) \<Longrightarrow> fetch srv (Some ms) req tr = fetch srv None req tr"
  by (cases "srv tr req") (simp add: fetch_def)

lemma mock_cf_run_in_time:
  "ms \<le> 3000 \<Longrightarrow>
   queryAndVerify_cf (mock_cf (JStr ''0xAB12'') ms) mock_adapter mock_cf_client
     ''select 1'' ''t'' (JStr ''0xkey'') []
   = (Inr mock_verified, mock_cf_trace)"
  by (simp add: queryAndVerify_cf_def io_bind_Inr io_lift_Inr adapter_call_Inr
      mock_cf_auth mock_cf_commitment mock_cf_proof mock_adapter_def mock_verified_def
      adapter_call_def)

section \<open>The claims\<close>

text \<open>
  C1, as the code has it. When the first \<open>k < 60\<close> status answers are \<^verbatim>\<open>pending\<close> and
  the next one is a terminal status, whichever of \<^verbatim>\<open>done\<close>, \<^verbatim>\<open>failed\<close> and
  \<^verbatim>\<open>canceled\<close> it is, polling ends and the workflow goes on with the result fetch: its
  outcome is that of the result fetch (in \<^verbatim>\<open>SxTClient.queryAndVerify\<close>, followed by the
  verification), and the request to the job-result endpoint is the next and last request
  of the trace. Nothing in either client fails the workflow because of the status.
\<close>

theorem terminal_status_then_result_fetch:
  "(k < 60 \<and> count_req (status_request queryId accessToken) tr = 0
      \<and> pending_then srv (status_request queryId accessToken) k final \<and> is_terminal final
    \<longrightarrow> poll_then_results srv queryId accessToken tr
          = getResults srv queryId accessToken
              (tr @ polls (Suc k) (status_request queryId accessToken))
        \<and> snd (poll_then_results srv queryId accessToken tr)
          = tr @ polls (Suc k) (status_request queryId accessToken)
               @ [Fetch (results_request queryId accessToken)])
   \<and> (k < 60 \<and> count_req (zk_get_request c (status_endpoint queryId) accessToken) tr = 0
      \<and> pending_then srv (zk_get_request c (status_endpoint queryId) accessToken) k final
      \<and> is_terminal final
    \<longrightarrow> poll_then_verify srv ad c accessToken queryId tr
          = result_then_verify srv ad c accessToken queryId
              (tr @ Fetch (zk_get_request c (status_endpoint queryId) accessToken)
                  # polls k (zk_get_request c (status_endpoint queryId) accessToken))
        \<and> snd (poll_then_verify srv ad c accessToken queryId tr)
          = tr @ Fetch (zk_get_request c (status_endpoint queryId) accessToken)
               # polls k (zk_get_request c (status_endpoint queryId) accessToken)
               @ [Fetch (zk_get_request c (results_endpoint queryId) accessToken)])"
proof (intro conjI impI)
  let ?req = "status_request queryId accessToken"
  assume a: "k < 60 \<and> count_req ?req tr = 0 \<and> pending_then srv ?req k final \<and> is_terminal final"
  then have loop: "poll_loop srv queryId accessToken False 0 tr
      = (Inr (True, Suc k), tr @ polls (Suc k) ?req)"
    using poll_loop_pending_final by blast
  then show eq: "poll_then_results srv queryId accessToken tr
      = getResults srv queryId accessToken (tr @ polls (Suc k) ?req)"
    by (simp add: poll_then_results_def io_bind_def)
  show "snd (poll_then_results srv queryId accessToken tr)
      = tr @ polls (Suc k) ?req @ [Fetch (results_request queryId accessToken)]"
    by (simp only: eq snd_getResults append_assoc)
next
  let ?req = "zk_get_request c (status_endpoint queryId) accessToken"
  assume a: "k < 60 \<and> count_req ?req tr = 0 \<and> pending_then srv ?req k final \<and> is_terminal final"
  then have loop: "io_bind (check_status srv c accessToken queryId)
           (\<lambda>success. poll_loop_zk srv c accessToken queryId success 0) tr
         = (Inr (True, k), tr @ Fetch ?req # polls k ?req)"
    using check_then_poll_pending_final by blast
  show eq: "poll_then_verify srv ad c accessToken queryId tr
      = result_then_verify srv ad c accessToken queryId (tr @ Fetch ?req # polls k ?req)"
    by (subst poll_then_verify_alt, subst io_bind_def) (simp add: loop)
  show "snd (poll_then_verify srv ad c accessToken queryId tr)
      = tr @ Fetch ?req # polls k ?req
           @ [Fetch (zk_get_request c (results_endpoint queryId) accessToken)]"
    by (simp only: eq snd_result_then_verify) simp
qed
text \<open>
  At \<open>k = 1\<close> with final status \<^verbatim>\<open>failed\<close> (\<open>mock_ts\<close>) and \<^verbatim>\<open>canceled\<close>
  (\<open>mock_zk\<close>): the trace ends with the result request.
\<close>

theorem terminal_status_then_result_fetch_witness:
  "snd (poll_then_results (mock_ts 1 ''failed'') (JStr ''q1'') (JStr ''tok1'') [])
     = polls 2 (status_request (JStr ''q1'') (JStr ''tok1''))
       @ [Fetch (results_request (JStr ''q1'') (JStr ''tok1''))]
   \<and> snd (poll_then_verify (mock_zk 1 ''canceled'') mock_adapter mock_zk_client
          (JStr ''tok1'') (JStr ''q1'') [])
     = Fetch (zk_get_request mock_zk_client (status_endpoint (JStr ''q1'')) (JStr ''tok1''))
       # polls 1 (zk_get_request mock_zk_client (status_endpoint (JStr ''q1'')) (JStr ''tok1''))
       @ [Fetch (zk_get_request mock_zk_client (results_endpoint (JStr ''q1'')) (JStr ''tok1''))]"
  using terminal_status_then_result_fetch [of 1 "JStr ''q1''" "JStr ''tok1''" "[]"
      "mock_ts 1 ''failed''" "JStr ''failed''" mock_zk_client mock_adapter]
    terminal_status_then_result_fetch [of 1 "JStr ''q1''" "JStr ''tok1''" "[]"
      "mock_zk 1 ''canceled''" "JStr ''canceled''" mock_zk_client mock_adapter]
    mock_ts_pending_then [of 1 "''failed''"] mock_zk_pending_then [of 1 "''canceled''"]
  by (simp add: is_terminal_def numeral_2_eq_2 snd_getResults snd_result_then_verify)

text \<open>
  Against C1 as stated: with the status \<^verbatim>\<open>failed\<close> (respectively \<^verbatim>\<open>canceled\<close>)
  observed at the first status call, both workflows return a value instead of failing, and
  the job-result endpoint has received one call.
\<close>

theorem failed_status_counterexample:
  "fst (proofOfSqlQuery (mock_ts 0 ''failed'') (JStr ''select 1'') (JStr ''key'') [])
     = Inr mock_rows
   \<and> count_req (results_request (JStr ''q1'') (JStr ''tok1''))
        (snd (proofOfSqlQuery (mock_ts 0 ''failed'') (JStr ''select 1'') (JStr ''key'') [])) = 1
   \<and> fst (queryAndVerify_zk (mock_zk 0 ''canceled'') mock_adapter mock_zk_client
          ''select 1'' JNull []) = Inr (JObj [(''rows'', mock_rows)])
   \<and> count_req (zk_get_request mock_zk_client (results_endpoint (JStr ''q1'')) (JStr ''tok1''))
        (snd (queryAndVerify_zk (mock_zk 0 ''canceled'') mock_adapter mock_zk_client
          ''select 1'' JNull [])) = 1"
proof -
  have f: "is_terminal (JStr ''failed'')" and c: "is_terminal (JStr ''canceled'')"
    by (simp_all add: is_terminal_def)
  have ts: "poll_loop (mock_ts 0 ''failed'') (JStr ''q1'') (JStr ''tok1'') False 0 tr
      = (Inr (True, Suc 0), tr @ polls (Suc 0) (status_request (JStr ''q1'') (JStr ''tok1'')))"
    if "count_req (status_request (JStr ''q1'') (JStr ''tok1'')) tr = 0" for tr
    using poll_loop_pending_final [OF mock_ts_pending_then f that] by simp
  have zk: "io_bind (check_status (mock_zk 0 ''canceled'') mock_zk_client (JStr ''tok1'') (JStr ''q1''))
      (\<lambda>success. poll_loop_zk (mock_zk 0 ''canceled'') mock_zk_client (JStr ''tok1'') (JStr ''q1'') success 0)
      (mock_zk_prologue ''select 1'')
      = (Inr (True, 0), mock_zk_prologue ''select 1''
          @ Fetch (zk_get_request mock_zk_client (status_endpoint (JStr ''q1'')) (JStr ''tok1''))
          # polls 0 (zk_get_request mock_zk_client (status_endpoint (JStr ''q1'')) (JStr ''tok1'')))"
    using check_then_poll_pending_final [OF mock_zk_pending_then c] by simp
  have a: "proofOfSqlQuery (mock_ts 0 ''failed'') (JStr ''select 1'') (JStr ''key'') []
    = (Inr mock_rows,
       [Fetch \<lparr>req_method = POST, url = ''https://proxy.api.makeinfinite.dev/auth/apikey'',
                headers = [(''apikey'', ''key'')], body = None\<rparr>,
        Fetch \<lparr>req_method = POST, url = ''https://api.makeinfinite.dev/v1/zkquery'',
                headers = [(''Content-Type'', ''application/json''),
                           (''Authorization'', ''Bearer tok1'')],
                body = Some (JObj [(''sqlText'', JStr ''select 1''), (''sourceNetwork'', JStr ''Mainnet'')])\<rparr>,
        Sleep 1000, Fetch (status_request (JStr ''q1'') (JStr ''tok1'')),
        Fetch (results_request (JStr ''q1'') (JStr ''tok1''))])"
    by (simp add: mock_ts_prologue poll_then_results_def io_bind_def ts status_request_def
        mock_ts_getResults)
  have b: "queryAndVerify_zk (mock_zk 0 ''canceled'') mock_adapter mock_zk_client ''select 1'' JNull []
    = (Inr (JObj [(''rows'', mock_rows)]),
       mock_zk_prologue ''select 1''
       @ [Fetch (zk_get_request mock_zk_client (status_endpoint (JStr ''q1'')) (JStr ''tok1'')),
          Fetch (zk_get_request mock_zk_client (results_endpoint (JStr ''q1'')) (JStr ''tok1''))])"
    by (simp only: mock_zk_prologue poll_then_verify_alt)
       (simp add: io_bind_def [of "io_bind _ _"] zk mock_zk_result_then_verify)
  show ?thesis
    by (simp add: a b)
       (simp add: results_request_def status_request_def zk_get_request_def
         status_endpoint_def results_endpoint_def mock_zk_prologue_def)
qed

text \<open>
  C2, as the code has it. A value returned by \<^verbatim>\<open>SxTClient.queryAndVerify\<close>, in the
  chainlink-functions client, the asynchronous client and the later synchronous revision,
  is what the adapter's verify function returned for the body of the prover's response;
  every other outcome is a thrown error. \<^verbatim>\<open>proofOfSqlQuery\<close> does not verify: the value it
  returns is the body of the response of the job-result endpoint.
\<close>

theorem returned_value_is_verified:
  "(fst (queryAndVerify_cf srv ad c queryString table commitmentKey tr) = Inr v
      \<longrightarrow> (\<exists>h req r resp p cs. url req = proverRootURL c \<and> snd (srv h req) = Fulfilled r
             \<and> json r = Some resp \<and> verify_prover_response_dory ad resp p cs = Inr v))
   \<and> (fst (queryAndVerify_zk srv ad z queryString blockHash tr) = Inr v
      \<longrightarrow> (\<exists>h queryId accessToken r resp.
             snd (srv h (zk_get_request z (results_endpoint queryId) accessToken)) = Fulfilled r
             \<and> json r = Some resp \<and> verify_prover_response_hyper_kzg ad resp = Inr v))
   \<and> (fst (queryAndVerify_rev getCommitment getProof srv ad b queryString table blockHash tr) = Inr v
      \<longrightarrow> (\<exists>accessToken proverQuery h resp h' p cs.
             getProof accessToken proverQuery h = (Inr resp, h')
             \<and> verify_prover_response_dory ad resp p cs = Inr v))
   \<and> (fst (proofOfSqlQuery srv query apiKey tr) = Inr v
      \<longrightarrow> (\<exists>h queryId accessToken r.
             snd (srv h (results_request queryId accessToken)) = Fulfilled r \<and> json r = Some v))"
proof (intro conjI impI)
  assume "fst (queryAndVerify_cf srv ad c queryString table commitmentKey tr) = Inr v"
  from queryAndVerify_cf_InrD [OF this]
  show "\<exists>h req r resp p cs. url req = proverRootURL c \<and> snd (srv h req) = Fulfilled r
          \<and> json r = Some resp \<and> verify_prover_response_dory ad resp p cs = Inr v"
    by (elim exE conjE) (drule getProof_cf_InrD, blast)
next
  assume "fst (queryAndVerify_zk srv ad z queryString blockHash tr) = Inr v"
  from queryAndVerify_zk_InrD [OF this]
  show "\<exists>h queryId accessToken r resp.
          snd (srv h (zk_get_request z (results_endpoint queryId) accessToken)) = Fulfilled r
          \<and> json r = Some resp \<and> verify_prover_response_hyper_kzg ad resp = Inr v"
    unfolding getZkQueryResult_def
    by (elim exE conjE) (drule getZkQueryApi_InrD, blast)
next
  assume "fst (queryAndVerify_rev getCommitment getProof srv ad b queryString table blockHash tr)
          = Inr v"
  from queryAndVerify_rev_InrD [OF this]
  show "\<exists>accessToken proverQuery h resp h' p cs.
          getProof accessToken proverQuery h = (Inr resp, h')
          \<and> verify_prover_response_dory ad resp p cs = Inr v"
    by blast
next
  assume "fst (proofOfSqlQuery srv query apiKey tr) = Inr v"
  from proofOfSqlQuery_InrD [OF this]
  show "\<exists>h queryId accessToken r.
          snd (srv h (results_request queryId accessToken)) = Fulfilled r \<and> json r = Some v"
    by (elim exE) (drule getResults_InrD, blast)
qed

text \<open>On the scripted services: each returned value and where it comes from.\<close>

theorem returned_value_is_verified_witness:
  "fst (queryAndVerify_cf (mock_cf (JStr ''0xAB12'') 0) mock_adapter mock_cf_client
          ''select 1'' ''t'' (JStr ''0xkey'') []) = Inr mock_verified
   \<and> (\<exists>h req r resp p cs. url req = proverRootURL mock_cf_client
         \<and> snd (mock_cf (JStr ''0xAB12'') 0 h req) = Fulfilled r \<and> json r = Some resp
         \<and> verify_prover_response_dory mock_adapter resp p cs = Inr mock_verified)
   \<and> fst (queryAndVerify_zk (mock_zk 0 ''done'') mock_adapter mock_zk_client ''select 1'' JNull [])
       = Inr (JObj [(''rows'', mock_rows)])
   \<and> (\<exists>h queryId accessToken r resp.
         snd (mock_zk 0 ''done'' h
               (zk_get_request mock_zk_client (results_endpoint queryId) accessToken))
           = Fulfilled r
         \<and> json r = Some resp
         \<and> verify_prover_response_hyper_kzg mock_adapter resp = Inr (JObj [(''rows'', mock_rows)]))"
  using returned_value_is_verified [where srv = "mock_cf (JStr ''0xAB12'') 0" and ad = mock_adapter
      and c = mock_cf_client and queryString = "''select 1''" and table = "''t''"
      and commitmentKey = "JStr ''0xkey''" and tr = "[]" and v = mock_verified,
      THEN conjunct1]
    returned_value_is_verified [where srv = "mock_zk 0 ''done''" and ad = mock_adapter
      and z = mock_zk_client and queryString = "''select 1''" and blockHash = JNull
      and tr = "[]" and v = "JObj [(''rows'', mock_rows)]",
      THEN conjunct2, THEN conjunct1]
  by (simp only: mock_cf_run mock_zk_run fst_conv simp_thms)

text \<open>
  Against C2 as stated: what \<^verbatim>\<open>proofOfSqlQuery\<close> returns is the payload the job-result
  endpoint sent, which went through no verification.
\<close>

theorem unverified_result_counterexample:
  "fst (proofOfSqlQuery (mock_ts 0 ''done'') (JStr ''select 1'') (JStr ''key'') []) = Inr mock_rows
   \<and> snd (mock_ts 0 ''done'' [] (results_request (JStr ''q1'') (JStr ''tok1'')))
       = Fulfilled \<lparr>ok = True, status = 200, statusText = ''OK'', json = Some mock_rows\<rparr>"
  by (simp add: mock_ts_run) (simp add: mock_ts_def mock_json_def results_request_def status_request_def)

text \<open>
  C3, as the code has it. When the status endpoint never answers with a terminal status,
  the loop of either client ends after its 60th pass: \<^verbatim>\<open>proofOfSqlQuery\<close> has then issued
  60 status requests, \<^verbatim>\<open>SxTClient.queryAndVerify\<close> 61 (one before the loop). The workflow
  does not fail there: it goes on with the result fetch, whose request is the next and last
  one of the trace, and its outcome is that of the result fetch (and verification).
\<close>

theorem no_terminal_status_then_result_fetch:
  "(never_terminal srv (status_request queryId accessToken)
    \<longrightarrow> poll_then_results srv queryId accessToken tr
          = getResults srv queryId accessToken
              (tr @ polls 60 (status_request queryId accessToken))
        \<and> snd (poll_then_results srv queryId accessToken tr)
          = tr @ polls 60 (status_request queryId accessToken)
               @ [Fetch (results_request queryId accessToken)])
   \<and> (never_terminal srv (zk_get_request c (status_endpoint queryId) accessToken)
    \<longrightarrow> poll_then_verify srv ad c accessToken queryId tr
          = result_then_verify srv ad c accessToken queryId
              (tr @ Fetch (zk_get_request c (status_endpoint queryId) accessToken)
                  # polls 60 (zk_get_request c (status_endpoint queryId) accessToken))
        \<and> snd (poll_then_verify srv ad c accessToken queryId tr)
          = tr @ Fetch (zk_get_request c (status_endpoint queryId) accessToken)
               # polls 60 (zk_get_request c (status_endpoint queryId) accessToken)
               @ [Fetch (zk_get_request c (results_endpoint queryId) accessToken)])"
proof (intro conjI impI)
  let ?req = "status_request queryId accessToken"
  assume a: "never_terminal srv ?req"
  have loop: "poll_loop srv queryId accessToken False 0 tr
      = (Inr (False, 60), tr @ polls (60 - 0) ?req)"
    using a unfolding never_terminal_def by (intro poll_loop_never) auto
  then show eq: "poll_then_results srv queryId accessToken tr
      = getResults srv queryId accessToken (tr @ polls 60 ?req)"
    by (simp add: poll_then_results_def io_bind_def)
  show "snd (poll_then_results srv queryId accessToken tr)
      = tr @ polls 60 ?req @ [Fetch (results_request queryId accessToken)]"
    by (simp only: eq snd_getResults append_assoc)
next
  let ?req = "zk_get_request c (status_endpoint queryId) accessToken"
  assume a: "never_terminal srv ?req"
  show eq: "poll_then_verify srv ad c accessToken queryId tr
      = result_then_verify srv ad c accessToken queryId (tr @ Fetch ?req # polls 60 ?req)"
    by (subst poll_then_verify_alt, subst io_bind_def)
       (simp add: check_then_poll_never [OF a])
  show "snd (poll_then_verify srv ad c accessToken queryId tr)
      = tr @ Fetch ?req # polls 60 ?req
           @ [Fetch (zk_get_request c (results_endpoint queryId) accessToken)]"
    by (simp only: eq snd_result_then_verify) simp
qed

text \<open>
  On services that always answer \<^verbatim>\<open>pending\<close>: 60 passes, then the result request.
\<close>

theorem no_terminal_status_then_result_fetch_witness:
  "snd (poll_then_results (mock_ts 0 ''pending'') (JStr ''q1'') (JStr ''tok1'') [])
     = polls 60 (status_request (JStr ''q1'') (JStr ''tok1''))
       @ [Fetch (results_request (JStr ''q1'') (JStr ''tok1''))]
   \<and> snd (poll_then_verify (mock_zk 0 ''pending'') mock_adapter mock_zk_client
          (JStr ''tok1'') (JStr ''q1'') [])
     = Fetch (zk_get_request mock_zk_client (status_endpoint (JStr ''q1'')) (JStr ''tok1''))
       # polls 60 (zk_get_request mock_zk_client (status_endpoint (JStr ''q1'')) (JStr ''tok1''))
       @ [Fetch (zk_get_request mock_zk_client (results_endpoint (JStr ''q1'')) (JStr ''tok1''))]"
  using no_terminal_status_then_result_fetch [of "mock_ts 0 ''pending''" "JStr ''q1''"
      "JStr ''tok1''" "[]" mock_zk_client mock_adapter]
    no_terminal_status_then_result_fetch [of "mock_zk 0 ''pending''" "JStr ''q1''"
      "JStr ''tok1''" "[]" mock_zk_client mock_adapter]
    mock_ts_never_terminal [OF pending_not_terminal]
    mock_zk_never_terminal [OF pending_not_terminal]
  by (simp only: simp_thms append_Nil append_Cons snd_getResults snd_result_then_verify)

text \<open>
  Against C3 as stated: on services whose status endpoint always answers \<^verbatim>\<open>pending\<close>,
  both workflows return a value instead of failing; \<^verbatim>\<open>SxTClient.queryAndVerify\<close> has
  issued 61 status requests, not 60, and both have called the job-result endpoint after
  the last status request.
\<close>

theorem polling_timeout_counterexample:
  "fst (proofOfSqlQuery (mock_ts 0 ''pending'') (JStr ''select 1'') (JStr ''key'') [])
     = Inr mock_rows
   \<and> count_req (status_request (JStr ''q1'') (JStr ''tok1''))
        (snd (proofOfSqlQuery (mock_ts 0 ''pending'') (JStr ''select 1'') (JStr ''key'') [])) = 60
   \<and> count_req (results_request (JStr ''q1'') (JStr ''tok1''))
        (snd (proofOfSqlQuery (mock_ts 0 ''pending'') (JStr ''select 1'') (JStr ''key'') [])) = 1
   \<and> fst (queryAndVerify_zk (mock_zk 0 ''pending'') mock_adapter mock_zk_client
          ''select 1'' JNull []) = Inr (JObj [(''rows'', mock_rows)])
   \<and> count_req (zk_get_request mock_zk_client (status_endpoint (JStr ''q1'')) (JStr ''tok1''))
        (snd (queryAndVerify_zk (mock_zk 0 ''pending'') mock_adapter mock_zk_client
          ''select 1'' JNull [])) = 61
   \<and> count_req (zk_get_request mock_zk_client (results_endpoint (JStr ''q1'')) (JStr ''tok1''))
        (snd (queryAndVerify_zk (mock_zk 0 ''pending'') mock_adapter mock_zk_client
          ''select 1'' JNull [])) = 1"
proof -
  let ?sreq = "status_request (JStr ''q1'') (JStr ''tok1'')"
  let ?rreq = "results_request (JStr ''q1'') (JStr ''tok1'')"
  let ?zs = "zk_get_request mock_zk_client (status_endpoint (JStr ''q1'')) (JStr ''tok1'')"
  let ?zr = "zk_get_request mock_zk_client (results_endpoint (JStr ''q1'')) (JStr ''tok1'')"
  have nt: "never_terminal (mock_ts 0 ''pending'') ?sreq"
    by (rule mock_ts_never_terminal [OF pending_not_terminal])
  have nz: "never_terminal (mock_zk 0 ''pending'') ?zs"
    by (rule mock_zk_never_terminal [OF pending_not_terminal])
  have ts: "poll_loop (mock_ts 0 ''pending'') (JStr ''q1'') (JStr ''tok1'') False 0 tr
      = (Inr (False, 60), tr @ polls 60 ?sreq)" for tr
    using poll_loop_never [of "mock_ts 0 ''pending''" "JStr ''q1''" "JStr ''tok1''" 0 tr] nt
    by (simp add: never_terminal_def)
  have ne1: "?sreq \<noteq> ?rreq" by (rule status_request_neq_results)
  have ne2: "?zs \<noteq> ?zr" by (rule zk_status_neq_results)
  obtain tr0 where a: "proofOfSqlQuery (mock_ts 0 ''pending'') (JStr ''select 1'') (JStr ''key'') []
    = (Inr mock_rows, tr0 @ polls 60 ?sreq @ [Fetch ?rreq])"
    and a0: "count_req ?sreq tr0 = 0" "count_req ?rreq tr0 = 0"
    by (simp add: mock_ts_prologue poll_then_results_def io_bind_def ts mock_ts_getResults
        status_request_def results_request_def)
  have b: "queryAndVerify_zk (mock_zk 0 ''pending'') mock_adapter mock_zk_client ''select 1'' JNull []
    = (Inr (JObj [(''rows'', mock_rows)]),
       (mock_zk_prologue ''select 1'' @ Fetch ?zs # polls 60 ?zs) @ [Fetch ?zr])"
    by (simp only: mock_zk_prologue poll_then_verify_alt)
       (simp only: io_bind_def [of "io_bind _ _"] check_then_poll_never [OF nz]
          mock_zk_result_then_verify prod.case sum.case)
  show ?thesis
    using ne1 ne2 a0 by (simp add: a b)
qed

text \<open>
  C4. For every \<open>k < 60\<close>: when the job-status endpoint answers \<^verbatim>\<open>pending\<close> to the first
  \<open>k\<close> status calls and \<^verbatim>\<open>done\<close> to the next one, both asynchronous workflows leave
  their polling with \<^verbatim>\<open>success\<close> set and go on to the result fetch, and the trace of
  the workflow holds exactly \<open>k + 1\<close> status requests. This is stated for the part of each
  workflow from the polling on (\<open>poll_then_results\<close>, \<open>poll_then_verify\<close>), started on
  a trace without status requests, and for the whole of \<^verbatim>\<open>proofOfSqlQuery\<close> and of
  \<^verbatim>\<open>SxTClient.queryAndVerify\<close> once the steps before the polling have gone through. In
  \<^verbatim>\<open>SxTClient.queryAndVerify\<close> the first of the \<open>k + 1\<close> status requests is the one
  before the loop, and the loop makes \<open>k\<close> passes.
\<close>

theorem pending_then_done_status_calls:
  "(k < 60 \<and> count_req (status_request queryId accessToken) tr = 0
      \<and> pending_then srv (status_request queryId accessToken) k (JStr ''done'')
    \<longrightarrow> fst (poll_loop srv queryId accessToken False 0 tr) = Inr (True, Suc k)
        \<and> count_req (status_request queryId accessToken)
             (snd (poll_loop srv queryId accessToken False 0 tr)) = Suc k
        \<and> poll_then_results srv queryId accessToken tr
           = getResults srv queryId accessToken
               (snd (poll_loop srv queryId accessToken False 0 tr))
        \<and> count_req (status_request queryId accessToken)
             (snd (poll_then_results srv queryId accessToken tr)) = Suc k)
   \<and> (k < 60 \<and> count_req (status_request queryId accessToken) tr = 0
      \<and> pending_then srv (status_request queryId accessToken) k (JStr ''done'')
      \<and> getAccessToken srv apiKey tr = (Inr accessToken, tr1)
      \<and> postQuerySubmitRequest srv query accessToken tr1 = (Inr queryId, tr2)
    \<longrightarrow> proofOfSqlQuery srv query apiKey tr
           = getResults srv queryId accessToken
               (tr2 @ polls (Suc k) (status_request queryId accessToken))
        \<and> count_req (status_request queryId accessToken)
             (snd (proofOfSqlQuery srv query apiKey tr)) = Suc k)
   \<and> (k < 60 \<and> count_req (zk_get_request c (status_endpoint queryId) accessToken) tr = 0
      \<and> pending_then srv (zk_get_request c (status_endpoint queryId) accessToken) k (JStr ''done'')
    \<longrightarrow> fst (io_bind (check_status srv c accessToken queryId)
               (\<lambda>success. poll_loop_zk srv c accessToken queryId success 0) tr) = Inr (True, k)
        \<and> count_req (zk_get_request c (status_endpoint queryId) accessToken)
             (snd (io_bind (check_status srv c accessToken queryId)
               (\<lambda>success. poll_loop_zk srv c accessToken queryId success 0) tr)) = Suc k
        \<and> poll_then_verify srv ad c accessToken queryId tr
           = result_then_verify srv ad c accessToken queryId
               (snd (io_bind (check_status srv c accessToken queryId)
                  (\<lambda>success. poll_loop_zk srv c accessToken queryId success 0) tr))
        \<and> count_req (zk_get_request c (status_endpoint queryId) accessToken)
             (snd (poll_then_verify srv ad c accessToken queryId tr)) = Suc k)
   \<and> (k < 60 \<and> count_req (zk_get_request c (status_endpoint queryId) accessToken) tr = 0
      \<and> pending_then srv (zk_get_request c (status_endpoint queryId) accessToken) k (JStr ''done'')
      \<and> getAccessToken_zk srv c tr = (Inr authResponse, tr1)
      \<and> get_prop authResponse ''accessToken'' = Inr accessToken
      \<and> getAttestations srv c blockHash tr1 = (Inr attestationsResponse, tr2)
      \<and> get_prop attestationsResponse ''result'' = Inr result
      \<and> get_prop result ''attestationsFor'' = Inr bestBlockHash
      \<and> submitZkQueryRequest srv c accessToken
           (JObj [(''sqlText'', JStr queryString), (''sourceNetwork'', JStr ''mainnet''),
                  (''commitmentScheme'', JStr ''HYPER_KZG''), (''blockHash'', bestBlockHash),
                  (''timeout'', JNull)]) tr2 = (Inr submitQueryResponse, tr3)
      \<and> get_prop submitQueryResponse ''queryId'' = Inr queryId
    \<longrightarrow> queryAndVerify_zk srv ad c queryString blockHash tr
           = result_then_verify srv ad c accessToken queryId
               (tr3 @ Fetch (zk_get_request c (status_endpoint queryId) accessToken)
                   # polls k (zk_get_request c (status_endpoint queryId) accessToken))
        \<and> count_req (zk_get_request c (status_endpoint queryId) accessToken)
             (snd (queryAndVerify_zk srv ad c queryString blockHash tr)) = Suc k)"
proof (intro conjI impI)
  let ?S = "status_request queryId accessToken"
  assume a: "k < 60 \<and> count_req ?S tr = 0 \<and> pending_then srv ?S k (JStr ''done'')"
  then have loop: "poll_loop srv queryId accessToken False 0 tr
      = (Inr (True, Suc k), tr @ polls (Suc k) ?S)"
    using poll_loop_pending_final [OF _ done_terminal] by blast
  from a have wf: "poll_then_results srv queryId accessToken tr
      = getResults srv queryId accessToken (tr @ polls (Suc k) ?S)"
    using poll_then_results_pending_final [OF _ done_terminal] by blast
  show "fst (poll_loop srv queryId accessToken False 0 tr) = Inr (True, Suc k)"
    by (simp add: loop)
  show "count_req ?S (snd (poll_loop srv queryId accessToken False 0 tr)) = Suc k"
    using a by (simp add: loop)
  show "poll_then_results srv queryId accessToken tr
      = getResults srv queryId accessToken (snd (poll_loop srv queryId accessToken False 0 tr))"
    by (simp add: wf loop)
  show "count_req ?S (snd (poll_then_results srv queryId accessToken tr)) = Suc k"
    using a by (simp only: wf count_status_after_results) simp
next
  let ?S = "status_request queryId accessToken"
  assume a: "k < 60 \<and> count_req ?S tr = 0 \<and> pending_then srv ?S k (JStr ''done'')
      \<and> getAccessToken srv apiKey tr = (Inr accessToken, tr1)
      \<and> postQuerySubmitRequest srv query accessToken tr1 = (Inr queryId, tr2)"
  then have c2: "count_req ?S tr2 = 0"
    using count_status_getAccessToken [of srv apiKey tr _ tr1 queryId accessToken]
      count_status_postQuerySubmitRequest [of srv query accessToken tr1 _ tr2 queryId accessToken]
    by simp
  from a have start: "proofOfSqlQuery srv query apiKey tr
      = poll_then_results srv queryId accessToken tr2"
    by (simp add: proofOfSqlQuery_def io_bind_Inr)
  from a c2 have wf: "poll_then_results srv queryId accessToken tr2
      = getResults srv queryId accessToken (tr2 @ polls (Suc k) ?S)"
    using poll_then_results_pending_final [OF _ done_terminal] by blast
  show "proofOfSqlQuery srv query apiKey tr
      = getResults srv queryId accessToken (tr2 @ polls (Suc k) ?S)"
    by (simp only: start wf)
  show "count_req ?S (snd (proofOfSqlQuery srv query apiKey tr)) = Suc k"
    using c2 by (simp only: start wf count_status_after_results) simp
next
  let ?Z = "zk_get_request c (status_endpoint queryId) accessToken"
  assume a: "k < 60 \<and> count_req ?Z tr = 0 \<and> pending_then srv ?Z k (JStr ''done'')"
  then have loop: "io_bind (check_status srv c accessToken queryId)
           (\<lambda>success. poll_loop_zk srv c accessToken queryId success 0) tr
         = (Inr (True, k), tr @ Fetch ?Z # polls k ?Z)"
    using check_then_poll_pending_final [OF _ done_terminal] by blast
  from a have wf: "poll_then_verify srv ad c accessToken queryId tr
      = result_then_verify srv ad c accessToken queryId (tr @ Fetch ?Z # polls k ?Z)"
    using poll_then_verify_pending_final [OF _ done_terminal] by blast
  show "fst (io_bind (check_status srv c accessToken queryId)
               (\<lambda>success. poll_loop_zk srv c accessToken queryId success 0) tr) = Inr (True, k)"
    by (simp add: loop)
  show "count_req ?Z (snd (io_bind (check_status srv c accessToken queryId)
               (\<lambda>success. poll_loop_zk srv c accessToken queryId success 0) tr)) = Suc k"
    using a by (simp add: loop)
  show "poll_then_verify srv ad c accessToken queryId tr
      = result_then_verify srv ad c accessToken queryId
          (snd (io_bind (check_status srv c accessToken queryId)
             (\<lambda>success. poll_loop_zk srv c accessToken queryId success 0) tr))"
    by (simp add: wf loop)
  show "count_req ?Z (snd (poll_then_verify srv ad c accessToken queryId tr)) = Suc k"
    using a by (simp only: wf count_status_after_verify) simp
next
  let ?Z = "zk_get_request c (status_endpoint queryId) accessToken"
  let ?body = "JObj [(''sqlText'', JStr queryString), (''sourceNetwork'', JStr ''mainnet''),
                  (''commitmentScheme'', JStr ''HYPER_KZG''), (''blockHash'', bestBlockHash),
                  (''timeout'', JNull)]"
  assume a: "k < 60 \<and> count_req ?Z tr = 0 \<and> pending_then srv ?Z k (JStr ''done'')
      \<and> getAccessToken_zk srv c tr = (Inr authResponse, tr1)
      \<and> get_prop authResponse ''accessToken'' = Inr accessToken
      \<and> getAttestations srv c blockHash tr1 = (Inr attestationsResponse, tr2)
      \<and> get_prop attestationsResponse ''result'' = Inr result
      \<and> get_prop result ''attestationsFor'' = Inr bestBlockHash
      \<and> submitZkQueryRequest srv c accessToken ?body tr2 = (Inr submitQueryResponse, tr3)
      \<and> get_prop submitQueryResponse ''queryId'' = Inr queryId"
  then have c3: "count_req ?Z tr3 = 0"
    using count_get_getAccessToken_zk [of srv c tr _ tr1 c "status_endpoint queryId" accessToken]
      count_get_getAttestations [of srv c blockHash tr1 _ tr2 c "status_endpoint queryId"
        accessToken]
      count_get_submitZkQueryRequest [of srv c accessToken ?body tr2 _ tr3 c
        "status_endpoint queryId" accessToken]
    by simp
  from a have start: "queryAndVerify_zk srv ad c queryString blockHash tr
      = poll_then_verify srv ad c accessToken queryId tr3"
    by (simp add: queryAndVerify_zk_def io_bind_Inr io_lift_Inr)
  from a c3 have wf: "poll_then_verify srv ad c accessToken queryId tr3
      = result_then_verify srv ad c accessToken queryId (tr3 @ Fetch ?Z # polls k ?Z)"
    using poll_then_verify_pending_final [OF _ done_terminal] by blast
  show "queryAndVerify_zk srv ad c queryString blockHash tr
      = result_then_verify srv ad c accessToken queryId (tr3 @ Fetch ?Z # polls k ?Z)"
    by (simp only: start wf)
  show "count_req ?Z (snd (queryAndVerify_zk srv ad c queryString blockHash tr)) = Suc k"
    using c3 by (simp only: start wf count_status_after_verify) simp
qed

text \<open>
  At \<open>k = 2\<close>, on the scripted services \<open>mock_ts\<close> and \<open>mock_zk\<close>: each whole workflow
  returns its value with three status requests in its trace.
\<close>

theorem pending_then_done_status_calls_witness:
  "fst (poll_loop (mock_ts 2 ''done'') (JStr ''q1'') (JStr ''tok1'') False 0 [])
       = Inr (True, Suc 2)
   \<and> count_req (status_request (JStr ''q1'') (JStr ''tok1''))
        (snd (poll_then_results (mock_ts 2 ''done'') (JStr ''q1'') (JStr ''tok1'') [])) = Suc 2
   \<and> fst (proofOfSqlQuery (mock_ts 2 ''done'') (JStr ''select 1'') (JStr ''key'') [])
       = Inr mock_rows
   \<and> count_req (status_request (JStr ''q1'') (JStr ''tok1''))
        (snd (proofOfSqlQuery (mock_ts 2 ''done'') (JStr ''select 1'') (JStr ''key'') [])) = Suc 2
   \<and> fst (io_bind (check_status (mock_zk 2 ''done'') mock_zk_client (JStr ''tok1'') (JStr ''q1''))
            (\<lambda>success. poll_loop_zk (mock_zk 2 ''done'') mock_zk_client (JStr ''tok1'') (JStr ''q1'')
               success 0) []) = Inr (True, 2)
   \<and> count_req (zk_get_request mock_zk_client (status_endpoint (JStr ''q1'')) (JStr ''tok1''))
        (snd (poll_then_verify (mock_zk 2 ''done'') mock_adapter mock_zk_client
               (JStr ''tok1'') (JStr ''q1'') [])) = Suc 2
   \<and> fst (queryAndVerify_zk (mock_zk 2 ''done'') mock_adapter mock_zk_client ''select 1'' JNull [])
       = Inr (JObj [(''rows'', mock_rows)])
   \<and> count_req (zk_get_request mock_zk_client (status_endpoint (JStr ''q1'')) (JStr ''tok1''))
        (snd (queryAndVerify_zk (mock_zk 2 ''done'') mock_adapter mock_zk_client
               ''select 1'' JNull [])) = Suc 2"
proof -
  let ?S = "status_request (JStr ''q1'') (JStr ''tok1'')"
  let ?Z = "zk_get_request mock_zk_client (status_endpoint (JStr ''q1'')) (JStr ''tok1'')"
  let ?T1 = "[Fetch \<lparr>req_method = POST,
            url = ''https://proxy.api.makeinfinite.dev/auth/apikey'',
            headers = [(''apikey'', ''key'')], body = None\<rparr>]"
  let ?T2 = "[Fetch \<lparr>req_method = POST,
            url = ''https://proxy.api.makeinfinite.dev/auth/apikey'',
            headers = [(''apikey'', ''key'')], body = None\<rparr>,
          Fetch \<lparr>req_method = POST, url = ''https://api.makeinfinite.dev/v1/zkquery'',
            headers = [(''Content-Type'', ''application/json''),
                       (''Authorization'', ''Bearer tok1'')],
            body = Some (JObj [(''sqlText'', JStr ''select 1''),
                               (''sourceNetwork'', JStr ''Mainnet'')])\<rparr>]"
  let ?P = "mock_zk_prologue ''select 1''"
  note pt = mock_ts_pending_then [of 2 "''done''"]
  note pz = mock_zk_pending_then [of 2 "''done''"]
  have k: "(2::nat) < 60" by simp
  have s0: "count_req ?S [] = 0" and z0: "count_req ?Z [] = 0" by simp_all
  have t1: "getAccessToken (mock_ts 2 ''done'') (JStr ''key'') [] = (Inr (JStr ''tok1''), ?T1)"
    by (simp add: mock_ts_token)
  have t2: "postQuerySubmitRequest (mock_ts 2 ''done'') (JStr ''select 1'') (JStr ''tok1'') ?T1
        = (Inr (JStr ''q1''), ?T2)"
    by (simp add: mock_ts_submit)
  have g: "get_prop (JObj [(''accessToken'', JStr ''tok1'')]) ''accessToken'' = Inr (JStr ''tok1'')"
    "get_prop (JObj [(''result'', JObj [(''attestationsFor'', JStr ''0xb10c'')])]) ''result''
       = Inr (JObj [(''attestationsFor'', JStr ''0xb10c'')])"
    "get_prop (JObj [(''attestationsFor'', JStr ''0xb10c'')]) ''attestationsFor''
       = Inr (JStr ''0xb10c'')"
    "get_prop (JObj [(''queryId'', JStr ''q1'')]) ''queryId'' = Inr (JStr ''q1'')"
    by simp_all
  have c1: "fst (poll_loop (mock_ts 2 ''done'') (JStr ''q1'') (JStr ''tok1'') False 0 [])
        = Inr (True, Suc 2)
      \<and> count_req ?S
        (snd (poll_then_results (mock_ts 2 ''done'') (JStr ''q1'') (JStr ''tok1'') [])) = Suc 2"
    using pending_then_done_status_calls [where k = 2 and queryId = "JStr ''q1''"
        and accessToken = "JStr ''tok1''" and tr = "[]" and srv = "mock_ts 2 ''done''",
        THEN conjunct1] pt k s0
    by blast
  have e2: "proofOfSqlQuery (mock_ts 2 ''done'') (JStr ''select 1'') (JStr ''key'') []
        = getResults (mock_ts 2 ''done'') (JStr ''q1'') (JStr ''tok1'') (?T2 @ polls (Suc 2) ?S)
      \<and> count_req ?S
        (snd (proofOfSqlQuery (mock_ts 2 ''done'') (JStr ''select 1'') (JStr ''key'') [])) = Suc 2"
    using pending_then_done_status_calls [where k = 2 and queryId = "JStr ''q1''"
        and accessToken = "JStr ''tok1''" and tr = "[]" and srv = "mock_ts 2 ''done''"
        and apiKey = "JStr ''key''" and query = "JStr ''select 1''"
        and ?tr1.0 = ?T1 and ?tr2.0 = ?T2,
        THEN conjunct2, THEN conjunct1] pt k s0 t1 t2
    by blast
  have c3: "fst (io_bind (check_status (mock_zk 2 ''done'') mock_zk_client (JStr ''tok1'') (JStr ''q1''))
            (\<lambda>success. poll_loop_zk (mock_zk 2 ''done'') mock_zk_client (JStr ''tok1'') (JStr ''q1'')
               success 0) []) = Inr (True, 2)
      \<and> count_req ?Z
        (snd (poll_then_verify (mock_zk 2 ''done'') mock_adapter mock_zk_client
               (JStr ''tok1'') (JStr ''q1'') [])) = Suc 2"
    using pending_then_done_status_calls [where k = 2 and queryId = "JStr ''q1''"
        and accessToken = "JStr ''tok1''" and tr = "[]" and srv = "mock_zk 2 ''done''"
        and c = mock_zk_client and ad = mock_adapter,
        THEN conjunct2, THEN conjunct2, THEN conjunct1] pz k z0
    by blast
  have e4: "queryAndVerify_zk (mock_zk 2 ''done'') mock_adapter mock_zk_client ''select 1'' JNull []
        = result_then_verify (mock_zk 2 ''done'') mock_adapter mock_zk_client (JStr ''tok1'')
            (JStr ''q1'') (?P @ Fetch ?Z # polls 2 ?Z)
      \<and> count_req ?Z
        (snd (queryAndVerify_zk (mock_zk 2 ''done'') mock_adapter mock_zk_client
               ''select 1'' JNull [])) = Suc 2"
    using pending_then_done_status_calls [where k = 2 and queryId = "JStr ''q1''"
        and accessToken = "JStr ''tok1''" and tr = "[]" and srv = "mock_zk 2 ''done''"
        and c = mock_zk_client and ad = mock_adapter and queryString = "''select 1''"
        and blockHash = JNull
        and authResponse = "JObj [(''accessToken'', JStr ''tok1'')]"
        and ?tr1.0 = "take (Suc 0) ?P"
        and attestationsResponse = "JObj [(''result'', JObj [(''attestationsFor'', JStr ''0xb10c'')])]"
        and ?tr2.0 = "take 2 ?P"
        and result = "JObj [(''attestationsFor'', JStr ''0xb10c'')]"
        and bestBlockHash = "JStr ''0xb10c''"
        and submitQueryResponse = "JObj [(''queryId'', JStr ''q1'')]"
        and ?tr3.0 = ?P,
        THEN conjunct2, THEN conjunct2, THEN conjunct2]
      pz k z0 g mock_zk_token [of 2 "''done''" "''select 1''"]
      mock_zk_attestations [of 2 "''done''" "''select 1''"]
      mock_zk_submit [of 2 "''done''" "''select 1''"]
    by blast
  have f2: "fst (proofOfSqlQuery (mock_ts 2 ''done'') (JStr ''select 1'') (JStr ''key'') [])
        = Inr mock_rows"
    by (simp only: e2 [THEN conjunct1] mock_ts_getResults fst_conv)
  have f4: "fst (queryAndVerify_zk (mock_zk 2 ''done'') mock_adapter mock_zk_client
               ''select 1'' JNull []) = Inr (JObj [(''rows'', mock_rows)])"
    by (simp only: e4 [THEN conjunct1] mock_zk_result_then_verify fst_conv)
  from c1 e2 c3 e4 f2 f4 show ?thesis by blast
qed

text \<open>
  C5, as the code has it. An \<^verbatim>\<open>SxTClient\<close> whose API key is missing or empty (any falsy
  value) fails \<^verbatim>\<open>queryAndVerify\<close> with the error \<^verbatim>\<open>API Key Not Found\<close> and leaves the
  trace as it was: no request is issued. This holds for the chainlink-functions client,
  for the asynchronous client, and for the later synchronous revision once its storage key
  has been derived.
\<close>

theorem missing_api_key_no_request:
  "(\<not> truthy (sxtApiKey c)
      \<longrightarrow> queryAndVerify_cf srv ad c queryString table commitmentKey tr
          = (Inl (Error ''API Key Not Found''), tr))
   \<and> (\<not> truthy (sxtApiKey z)
      \<longrightarrow> queryAndVerify_zk srv ad z queryString blockHash tr
          = (Inl (Error ''API Key Not Found''), tr))
   \<and> (\<not> truthy (sxtApiKey b) \<and> commitment_storage_key_dory ad table = Inr key
      \<longrightarrow> queryAndVerify_rev getCommitment getProof srv ad b queryString table blockHash tr
          = (Inl (Error ''API Key Not Found''), tr))"
  by (simp add: queryAndVerify_cf_def queryAndVerify_zk_def queryAndVerify_rev_def
      getAccessToken_cf_def getAccessToken_zk_def io_bind_def io_throw_def adapter_call_def)

text \<open>With the empty string and with \<^verbatim>\<open>undefined\<close> as the key.\<close>

theorem missing_api_key_no_request_witness:
  "queryAndVerify_cf (mock_zk 0 ''done'') mock_adapter (mock_cf_client\<lparr>sxtApiKey := JStr []\<rparr>)
       ''select 1'' ''t'' (JStr ''0xkey'') []
     = (Inl (Error ''API Key Not Found''), [])
   \<and> queryAndVerify_zk (mock_zk 0 ''done'') mock_adapter (mock_zk_client\<lparr>sxtApiKey := JUndefined\<rparr>)
       ''select 1'' JNull []
     = (Inl (Error ''API Key Not Found''), [])
   \<and> queryAndVerify_rev (\<lambda>k b. io_return JNull) (\<lambda>t p. io_return JNull) (mock_zk 0 ''done'')
       mock_adapter (mock_cf_client\<lparr>sxtApiKey := JNull\<rparr>) ''select 1'' ''t'' JNull []
     = (Inl (Error ''API Key Not Found''), [])"
  using missing_api_key_no_request [where c = "mock_cf_client\<lparr>sxtApiKey := JStr []\<rparr>"
      and srv = "mock_zk 0 ''done''" and ad = mock_adapter and queryString = "''select 1''"
      and table = "''t''" and commitmentKey = "JStr ''0xkey''" and tr = "[]"
      and z = "mock_zk_client\<lparr>sxtApiKey := JUndefined\<rparr>" and blockHash = JNull
      and b = "mock_cf_client\<lparr>sxtApiKey := JNull\<rparr>" and key = "''t''"
      and getCommitment = "\<lambda>k b. io_return JNull" and getProof = "\<lambda>t p. io_return JNull"]
  by (simp add: mock_adapter_def)

text \<open>
  Against C5 as stated: \<^verbatim>\<open>proofOfSqlQuery\<close> called with the empty key sends it to the
  authentication endpoint and carries on.
\<close>

theorem empty_api_key_counterexample:
  "fst (proofOfSqlQuery (mock_ts 0 ''done'') (JStr ''select 1'') (JStr []) []) = Inr mock_rows
   \<and> count_req \<lparr>req_method = POST, url = ''https://proxy.api.makeinfinite.dev/auth/apikey'',
                headers = [(''apikey'', [])], body = None\<rparr>
        (snd (proofOfSqlQuery (mock_ts 0 ''done'') (JStr ''select 1'') (JStr []) [])) = 1"
proof -
  have d: "is_terminal (JStr ''done'')" by (simp add: is_terminal_def)
  have ts: "poll_loop (mock_ts 0 ''done'') (JStr ''q1'') (JStr ''tok1'') False 0 tr
      = (Inr (True, Suc 0), tr @ polls (Suc 0) (status_request (JStr ''q1'') (JStr ''tok1'')))"
    if "count_req (status_request (JStr ''q1'') (JStr ''tok1'')) tr = 0" for tr
    using poll_loop_pending_final [OF mock_ts_pending_then d that] by simp
  show ?thesis
    by (simp add: mock_ts_prologue poll_then_results_def io_bind_def ts status_request_def
        mock_ts_getResults results_request_def)
qed

text \<open>
  C6. In both synchronous clients, once the steps before verification have gone through,
  with \<open>p\<close> the planner's result and \<open>resp\<close> the prover's response, the workflow ends
  with the call of the verify function on \<open>resp\<close>, the plan of \<open>p\<close> and the commitments
  of \<open>p\<close>: the sequence the planner returned, not the list \<open>[tc]\<close> built from the
  fetched commitment.
\<close>

theorem verify_gets_planned_commitments:
  "(getAccessToken_cf srv c tr = (Inr a, tr1) \<and> get_prop a ''accessToken'' = Inr tok
      \<and> getCommitment_cf srv c commitmentKey tr1 = (Inr cr, tr2)
      \<and> get_prop cr ''result'' = Inr res \<and> slice2 res = Inr cm
      \<and> new_TableRefAndCommitment ad table cm = Inr tc
      \<and> plan_prover_query_dory ad queryString [tc] = Inr p
      \<and> getProof_cf srv c tok (prover_query_json p) tr2 = (Inr resp, tr3)
    \<longrightarrow> queryAndVerify_cf srv ad c queryString table commitmentKey tr
        = adapter_call
            (verify_prover_response_dory ad resp (query_expr_json p) (commitments p)) tr3)
   \<and> (commitment_storage_key_dory ad table = Inr key
      \<and> getAccessToken_zk srv b tr = (Inr a, tr1) \<and> get_prop a ''accessToken'' = Inr tok
      \<and> getCommitment (JStr (''0x'' @ key)) blockHash tr1 = (Inr cr, tr2)
      \<and> get_prop cr ''result'' = Inr res \<and> slice2 res = Inr cm
      \<and> new_TableRefAndCommitment ad table cm = Inr tc
      \<and> plan_prover_query_dory ad queryString [tc] = Inr p
      \<and> getProof tok (prover_query_json p) tr2 = (Inr resp, tr3)
    \<longrightarrow> queryAndVerify_rev getCommitment getProof srv ad b queryString table blockHash tr
        = adapter_call
            (verify_prover_response_dory ad resp (query_expr_json p) (commitments p)) tr3)"
  by (simp add: queryAndVerify_cf_def queryAndVerify_rev_def io_bind_Inr io_lift_Inr
      adapter_call_Inr)

text \<open>
  On the scripted services, whose planner rewrites every commitment and whose verifier
  reports the commitments it was given: the result carries the rewritten commitment.
\<close>

theorem verify_gets_planned_commitments_witness:
  "queryAndVerify_cf (mock_cf (JStr ''0xAB12'') 0) mock_adapter mock_cf_client
       ''select 1'' ''t'' (JStr ''0xkey'') []
     = (Inr (JObj [(''rows'', mock_rows),
                   (''checked'', JArr [JArr [JStr ''normalized'', JStr ''AB12'']])]),
        mock_cf_trace)
   \<and> queryAndVerify_rev
       (\<lambda>k b. getCommitment_cf (mock_cf (JStr ''0xAB12'') 0) mock_cf_client (JStr ''0xkey''))
       (getProof_cf (mock_cf (JStr ''0xAB12'') 0) mock_cf_client)
       (mock_cf (JStr ''0xAB12'') 0) mock_adapter mock_cf_client ''select 1'' ''t'' JNull []
     = (Inr (JObj [(''rows'', mock_rows),
                   (''checked'', JArr [JArr [JStr ''normalized'', JStr ''AB12'']])]),
        mock_cf_trace)"
  using verify_gets_planned_commitments [where srv = "mock_cf (JStr ''0xAB12'') 0"
      and c = mock_cf_client and tr = "[]" and a = "JObj [(''accessToken'', JStr ''tok1'')]"
      and ?tr1.0 = "take (Suc 0) mock_cf_trace" and tok = "JStr ''tok1''"
      and commitmentKey = "JStr ''0xkey''" and cr = "JObj [(''result'', JStr ''0xAB12'')]"
      and ?tr2.0 = "take 2 mock_cf_trace" and res = "JStr ''0xAB12''" and cm = "JStr ''AB12''"
      and ad = mock_adapter and table = "''t''" and tc = "(''t'', JStr ''AB12'')"
      and queryString = "''select 1''"
      and p = "\<lparr>prover_query_json = JObj [(''query'', JStr ''select 1'')],
                query_expr_json = JStr ''select 1'',
                commitments = [(''t'', JArr [JStr ''normalized'', JStr ''AB12''])]\<rparr>"
      and resp = mock_rows and ?tr3.0 = mock_cf_trace
      and key = "''t''" and b = mock_cf_client and blockHash = JNull
      and getCommitment = "\<lambda>k b. getCommitment_cf (mock_cf (JStr ''0xAB12'') 0) mock_cf_client
                               (JStr ''0xkey'')"
      and getProof = "getProof_cf (mock_cf (JStr ''0xAB12'') 0) mock_cf_client"]
  by (simp add: mock_cf_auth mock_zk_auth mock_cf_commitment mock_cf_proof mock_adapter_def
      adapter_call_def)

text \<open>
  C7, as the code has it. In both synchronous clients, when the state-read call returns a
  JSON-RPC object whose \<^verbatim>\<open>result\<close> is \<^verbatim>\<open>null\<close> or absent, the workflow fails at
  \<^verbatim>\<open>commitmentResponse.result.slice(2)\<close> with the runtime's TypeError, and the trace is
  the one the state-read call left: the planner is not called and nothing is sent to the
  prover. The clients have no error of their own for a missing commitment.
\<close>

theorem missing_commitment_type_error:
  "(getAccessToken_cf srv c tr = (Inr a, tr1) \<and> get_prop a ''accessToken'' = Inr tok
      \<and> getCommitment_cf srv c commitmentKey tr1 = (Inr cr, tr2)
      \<and> (get_prop cr ''result'' = Inr JNull \<or> get_prop cr ''result'' = Inr JUndefined)
    \<longrightarrow> queryAndVerify_cf srv ad c queryString table commitmentKey tr
        = (Inl (TypeError ''slice''), tr2))
   \<and> (commitment_storage_key_dory ad table = Inr key
      \<and> getAccessToken_zk srv b tr = (Inr a, tr1) \<and> get_prop a ''accessToken'' = Inr tok
      \<and> getCommitment (JStr (''0x'' @ key)) blockHash tr1 = (Inr cr, tr2)
      \<and> (get_prop cr ''result'' = Inr JNull \<or> get_prop cr ''result'' = Inr JUndefined)
    \<longrightarrow> queryAndVerify_rev getCommitment getProof srv ad b queryString table blockHash tr
        = (Inl (TypeError ''slice''), tr2))"
  by (auto simp: queryAndVerify_cf_def queryAndVerify_rev_def io_bind_Inr io_lift_Inr
      io_lift_Inl adapter_call_Inr)

text \<open>
  With \<^verbatim>\<open>{"result": null}\<close> from the node: the trace holds the authentication and the
  state-read requests only.
\<close>

theorem missing_commitment_type_error_witness:
  "queryAndVerify_cf (mock_cf JNull 0) mock_adapter mock_cf_client
       ''select 1'' ''t'' (JStr ''0xkey'') []
     = (Inl (TypeError ''slice''), take 2 mock_cf_trace)
   \<and> queryAndVerify_rev
       (\<lambda>k b. getCommitment_cf (mock_cf JNull 0) mock_cf_client (JStr ''0xkey''))
       (getProof_cf (mock_cf JNull 0) mock_cf_client)
       (mock_cf JNull 0) mock_adapter mock_cf_client ''select 1'' ''t'' JNull []
     = (Inl (TypeError ''slice''), take 2 mock_cf_trace)"
  using missing_commitment_type_error [where srv = "mock_cf JNull 0"
      and c = mock_cf_client and tr = "[]" and a = "JObj [(''accessToken'', JStr ''tok1'')]"
      and ?tr1.0 = "take (Suc 0) mock_cf_trace" and tok = "JStr ''tok1''"
      and commitmentKey = "JStr ''0xkey''" and cr = "JObj [(''result'', JNull)]"
      and ?tr2.0 = "take 2 mock_cf_trace"
      and ad = mock_adapter and table = "''t''" and queryString = "''select 1''"
      and key = "''t''" and b = mock_cf_client and blockHash = JNull
      and getCommitment = "\<lambda>k b. getCommitment_cf (mock_cf JNull 0) mock_cf_client
                               (JStr ''0xkey'')"
      and getProof = "getProof_cf (mock_cf JNull 0) mock_cf_client"]
  by (simp add: mock_cf_auth mock_zk_auth mock_cf_commitment mock_adapter_def)

text \<open>
  Against C7 as stated: with \<^verbatim>\<open>{"result": null}\<close> from the node the error the caller
  gets is the TypeError of the \<^verbatim>\<open>slice\<close> call, not an error about the commitment.
\<close>

theorem commitment_not_found_counterexample:
  "fst (queryAndVerify_cf (mock_cf JNull 0) mock_adapter mock_cf_client
          ''select 1'' ''t'' (JStr ''0xkey'') []) = Inl (TypeError ''slice'')"
  by (simp add: queryAndVerify_cf_def io_bind_Inr mock_cf_auth mock_cf_commitment
      io_lift_Inr io_lift_Inl)

text \<open>
  C8. The synchronous \<^verbatim>\<open>queryAndVerify\<close> runs its steps in one order: access token,
  commitment, plan, request to the prover, verification. Whatever a step throws is the
  outcome of the workflow, with the trace as that step left it, so that nothing of a later
  step is issued; each later step runs only on the results of the earlier ones. For the
  chainlink-functions client the requests of a run, read off the trace, are an initial
  part of: authentication URL, node URL, prover URL, each at most once, and a run that
  returns a value has issued all three. The later synchronous revision derives the storage
  key first and then runs the same steps.
\<close>

theorem sync_steps_in_order:
  "(getAccessToken_cf srv c tr = (Inl e, tr1)
    \<longrightarrow> queryAndVerify_cf srv ad c queryString table commitmentKey tr
        = (Inl e, tr1))
   \<and> (getAccessToken_cf srv c tr = (Inr a, tr1) \<and> get_prop a ''accessToken'' = Inr tok
      \<and> getCommitment_cf srv c commitmentKey tr1 = (Inl e, tr2)
    \<longrightarrow> queryAndVerify_cf srv ad c queryString table commitmentKey tr
        = (Inl e, tr2))
   \<and> (getAccessToken_cf srv c tr = (Inr a, tr1) \<and> get_prop a ''accessToken'' = Inr tok
      \<and> getCommitment_cf srv c commitmentKey tr1 = (Inr cr, tr2) \<and> get_prop cr ''result'' = Inr res
      \<and> slice2 res = Inr cm \<and> new_TableRefAndCommitment ad table cm = Inr tc
      \<and> plan_prover_query_dory ad queryString [tc] = Inl x
    \<longrightarrow> queryAndVerify_cf srv ad c queryString table commitmentKey tr
        = (Inl (Thrown x), tr2))
   \<and> (getAccessToken_cf srv c tr = (Inr a, tr1) \<and> get_prop a ''accessToken'' = Inr tok
      \<and> getCommitment_cf srv c commitmentKey tr1 = (Inr cr, tr2) \<and> get_prop cr ''result'' = Inr res
      \<and> slice2 res = Inr cm \<and> new_TableRefAndCommitment ad table cm = Inr tc
      \<and> plan_prover_query_dory ad queryString [tc] = Inr p
      \<and> getProof_cf srv c tok (prover_query_json p) tr2 = (Inl e, tr3)
    \<longrightarrow> queryAndVerify_cf srv ad c queryString table commitmentKey tr
        = (Inl e, tr3))
   \<and> (getAccessToken_cf srv c tr = (Inr a, tr1) \<and> get_prop a ''accessToken'' = Inr tok
      \<and> getCommitment_cf srv c commitmentKey tr1 = (Inr cr, tr2) \<and> get_prop cr ''result'' = Inr res
      \<and> slice2 res = Inr cm \<and> new_TableRefAndCommitment ad table cm = Inr tc
      \<and> plan_prover_query_dory ad queryString [tc] = Inr p
      \<and> getProof_cf srv c tok (prover_query_json p) tr2 = (Inr resp, tr3)
      \<and> verify_prover_response_dory ad resp (query_expr_json p) (commitments p) = Inl x
    \<longrightarrow> queryAndVerify_cf srv ad c queryString table commitmentKey tr
        = (Inl (Thrown x), tr3))
   \<and> (getAccessToken_cf srv c tr = (Inr a, tr1) \<and> get_prop a ''accessToken'' = Inr tok
      \<and> getCommitment_cf srv c commitmentKey tr1 = (Inr cr, tr2) \<and> get_prop cr ''result'' = Inr res
      \<and> slice2 res = Inr cm \<and> new_TableRefAndCommitment ad table cm = Inr tc
      \<and> plan_prover_query_dory ad queryString [tc] = Inr p
      \<and> getProof_cf srv c tok (prover_query_json p) tr2 = (Inr resp, tr3)
      \<and> verify_prover_response_dory ad resp (query_expr_json p) (commitments p) = Inr v
    \<longrightarrow> queryAndVerify_cf srv ad c queryString table commitmentKey tr
        = (Inr v, tr3))
   \<and> fetch_urls (snd (queryAndVerify_cf srv ad c queryString table commitmentKey tr))
       \<in> {fetch_urls tr, fetch_urls tr @ [authRootURL c],
          fetch_urls tr @ [authRootURL c, substrateNodeURL c],
          fetch_urls tr @ [authRootURL c, substrateNodeURL c, proverRootURL c]}
   \<and> (fst (queryAndVerify_cf srv ad c queryString table commitmentKey tr) = Inr v
    \<longrightarrow> fetch_urls (snd (queryAndVerify_cf srv ad c queryString table commitmentKey tr))
        = fetch_urls tr @ [authRootURL c, substrateNodeURL c, proverRootURL c])
   \<and> (commitment_storage_key_dory ad table = Inr key
      \<and> getAccessToken_zk srv b tr = (Inl e, tr1)
    \<longrightarrow> queryAndVerify_rev getCommitment getProof srv ad b queryString table blockHash tr
        = (Inl e, tr1))
   \<and> (commitment_storage_key_dory ad table = Inr key
      \<and> getAccessToken_zk srv b tr = (Inr a, tr1) \<and> get_prop a ''accessToken'' = Inr tok
      \<and> getCommitment (JStr (''0x'' @ key)) blockHash tr1 = (Inl e, tr2)
    \<longrightarrow> queryAndVerify_rev getCommitment getProof srv ad b queryString table blockHash tr
        = (Inl e, tr2))
   \<and> (commitment_storage_key_dory ad table = Inr key
      \<and> getAccessToken_zk srv b tr = (Inr a, tr1) \<and> get_prop a ''accessToken'' = Inr tok
      \<and> getCommitment (JStr (''0x'' @ key)) blockHash tr1 = (Inr cr, tr2) \<and> get_prop cr ''result'' = Inr res
      \<and> slice2 res = Inr cm \<and> new_TableRefAndCommitment ad table cm = Inr tc
      \<and> plan_prover_query_dory ad queryString [tc] = Inl x
    \<longrightarrow> queryAndVerify_rev getCommitment getProof srv ad b queryString table blockHash tr
        = (Inl (Thrown x), tr2))
   \<and> (commitment_storage_key_dory ad table = Inr key
      \<and> getAccessToken_zk srv b tr = (Inr a, tr1) \<and> get_prop a ''accessToken'' = Inr tok
      \<and> getCommitment (JStr (''0x'' @ key)) blockHash tr1 = (Inr cr, tr2) \<and> get_prop cr ''result'' = Inr res
      \<and> slice2 res = Inr cm \<and> new_TableRefAndCommitment ad table cm = Inr tc
      \<and> plan_prover_query_dory ad queryString [tc] = Inr p
      \<and> getProof tok (prover_query_json p) tr2 = (Inl e, tr3)
    \<longrightarrow> queryAndVerify_rev getCommitment getProof srv ad b queryString table blockHash tr
        = (Inl e, tr3))
   \<and> (commitment_storage_key_dory ad table = Inr key
      \<and> getAccessToken_zk srv b tr = (Inr a, tr1) \<and> get_prop a ''accessToken'' = Inr tok
      \<and> getCommitment (JStr (''0x'' @ key)) blockHash tr1 = (Inr cr, tr2) \<and> get_prop cr ''result'' = Inr res
      \<and> slice2 res = Inr cm \<and> new_TableRefAndCommitment ad table cm = Inr tc
      \<and> plan_prover_query_dory ad queryString [tc] = Inr p
      \<and> getProof tok (prover_query_json p) tr2 = (Inr resp, tr3)
      \<and> verify_prover_response_dory ad resp (query_expr_json p) (commitments p) = Inl x
    \<longrightarrow> queryAndVerify_rev getCommitment getProof srv ad b queryString table blockHash tr
        = (Inl (Thrown x), tr3))
   \<and> (commitment_storage_key_dory ad table = Inr key
      \<and> getAccessToken_zk srv b tr = (Inr a, tr1) \<and> get_prop a ''accessToken'' = Inr tok
      \<and> getCommitment (JStr (''0x'' @ key)) blockHash tr1 = (Inr cr, tr2) \<and> get_prop cr ''result'' = Inr res
      \<and> slice2 res = Inr cm \<and> new_TableRefAndCommitment ad table cm = Inr tc
      \<and> plan_prover_query_dory ad queryString [tc] = Inr p
      \<and> getProof tok (prover_query_json p) tr2 = (Inr resp, tr3)
      \<and> verify_prover_response_dory ad resp (query_expr_json p) (commitments p) = Inr v
    \<longrightarrow> queryAndVerify_rev getCommitment getProof srv ad b queryString table blockHash tr
        = (Inr v, tr3))"
proof (intro conjI)
  show "fetch_urls (snd (queryAndVerify_cf srv ad c queryString table commitmentKey tr))
       \<in> {fetch_urls tr, fetch_urls tr @ [authRootURL c],
          fetch_urls tr @ [authRootURL c, substrateNodeURL c],
          fetch_urls tr @ [authRootURL c, substrateNodeURL c, proverRootURL c]}"
    by (rule queryAndVerify_cf_urls)
  show "fst (queryAndVerify_cf srv ad c queryString table commitmentKey tr) = Inr v
       \<longrightarrow> fetch_urls (snd (queryAndVerify_cf srv ad c queryString table commitmentKey tr))
           = fetch_urls tr @ [authRootURL c, substrateNodeURL c, proverRootURL c]"
    using queryAndVerify_cf_Inr_urls [of srv ad c queryString table commitmentKey tr v]
    by (cases "queryAndVerify_cf srv ad c queryString table commitmentKey tr") simp
qed (simp_all add: queryAndVerify_cf_def queryAndVerify_rev_def io_bind_Inr io_bind_Inl
      io_lift_Inr adapter_call_Inr adapter_call_Inl adapter_call_def)

text \<open>
  On the scripted services: a run in which every step goes through, and a run whose
  request to the prover is aborted, so that the verification never runs.
\<close>

theorem sync_steps_in_order_witness:
  "queryAndVerify_cf (mock_cf (JStr ''0xAB12'') 0) mock_adapter mock_cf_client
       ''select 1'' ''t'' (JStr ''0xkey'') [] = (Inr mock_verified, mock_cf_trace)
   \<and> fetch_urls (snd (queryAndVerify_cf (mock_cf (JStr ''0xAB12'') 0) mock_adapter mock_cf_client
       ''select 1'' ''t'' (JStr ''0xkey'') [])) = [''auth'', ''rpc'', ''prover'']
   \<and> queryAndVerify_cf (mock_cf (JStr ''0xAB12'') 5000) mock_adapter mock_cf_client
       ''select 1'' ''t'' (JStr ''0xkey'') [] = (Inl AbortError, mock_cf_trace)
   \<and> queryAndVerify_rev
       (\<lambda>k b. getCommitment_cf (mock_cf (JStr ''0xAB12'') 0) mock_cf_client (JStr ''0xkey''))
       (getProof_cf (mock_cf (JStr ''0xAB12'') 0) mock_cf_client)
       (mock_cf (JStr ''0xAB12'') 0) mock_adapter mock_cf_client ''select 1'' ''t'' JNull []
     = (Inr mock_verified, mock_cf_trace)"
proof -
  note evals = mock_cf_auth mock_zk_auth mock_cf_commitment mock_cf_proof mock_cf_proof_late
    mock_adapter_def mock_verified_def
  have ok: "queryAndVerify_cf (mock_cf (JStr ''0xAB12'') 0) mock_adapter mock_cf_client
       ''select 1'' ''t'' (JStr ''0xkey'') [] = (Inr mock_verified, mock_cf_trace)"
    and rev: "queryAndVerify_rev
       (\<lambda>k b. getCommitment_cf (mock_cf (JStr ''0xAB12'') 0) mock_cf_client (JStr ''0xkey''))
       (getProof_cf (mock_cf (JStr ''0xAB12'') 0) mock_cf_client)
       (mock_cf (JStr ''0xAB12'') 0) mock_adapter mock_cf_client ''select 1'' ''t'' JNull []
     = (Inr mock_verified, mock_cf_trace)"
    using sync_steps_in_order [where srv = "mock_cf (JStr ''0xAB12'') 0"
      and c = mock_cf_client and tr = "[]" and e = AbortError
      and a = "JObj [(''accessToken'', JStr ''tok1'')]"
      and ?tr1.0 = "take (Suc 0) mock_cf_trace" and tok = "JStr ''tok1''"
      and commitmentKey = "JStr ''0xkey''" and cr = "JObj [(''result'', JStr ''0xAB12'')]"
      and ?tr2.0 = "take 2 mock_cf_trace" and res = "JStr ''0xAB12''" and cm = "JStr ''AB12''"
      and ad = mock_adapter and table = "''t''" and tc = "(''t'', JStr ''AB12'')"
      and queryString = "''select 1''" and x = JNull
      and p = "\<lparr>prover_query_json = JObj [(''query'', JStr ''select 1'')],
                query_expr_json = JStr ''select 1'',
                commitments = [(''t'', JArr [JStr ''normalized'', JStr ''AB12''])]\<rparr>"
      and resp = mock_rows and ?tr3.0 = mock_cf_trace and v = mock_verified
      and key = "''t''" and b = mock_cf_client and blockHash = JNull
      and getCommitment = "\<lambda>k b. getCommitment_cf (mock_cf (JStr ''0xAB12'') 0) mock_cf_client
                               (JStr ''0xkey'')"
      and getProof = "getProof_cf (mock_cf (JStr ''0xAB12'') 0) mock_cf_client"]
    by (simp_all add: evals)
  have late: "queryAndVerify_cf (mock_cf (JStr ''0xAB12'') 5000) mock_adapter mock_cf_client
       ''select 1'' ''t'' (JStr ''0xkey'') [] = (Inl AbortError, mock_cf_trace)"
    using sync_steps_in_order [where srv = "mock_cf (JStr ''0xAB12'') 5000"
      and c = mock_cf_client and tr = "[]" and e = AbortError
      and a = "JObj [(''accessToken'', JStr ''tok1'')]"
      and ?tr1.0 = "take (Suc 0) mock_cf_trace" and tok = "JStr ''tok1''"
      and commitmentKey = "JStr ''0xkey''" and cr = "JObj [(''result'', JStr ''0xAB12'')]"
      and ?tr2.0 = "take 2 mock_cf_trace" and res = "JStr ''0xAB12''" and cm = "JStr ''AB12''"
      and ad = mock_adapter and table = "''t''" and tc = "(''t'', JStr ''AB12'')"
      and queryString = "''select 1''" and x = JNull
      and p = "\<lparr>prover_query_json = JObj [(''query'', JStr ''select 1'')],
                query_expr_json = JStr ''select 1'',
                commitments = [(''t'', JArr [JStr ''normalized'', JStr ''AB12''])]\<rparr>"
      and resp = mock_rows and ?tr3.0 = mock_cf_trace and v = mock_verified
      and key = "''t''" and b = mock_cf_client and blockHash = JNull
      and getCommitment = "\<lambda>k b. getCommitment_cf (mock_cf (JStr ''0xAB12'') 5000) mock_cf_client
                               (JStr ''0xkey'')"
      and getProof = "getProof_cf (mock_cf (JStr ''0xAB12'') 5000) mock_cf_client"]
    by (simp add: evals)
  show ?thesis
    by (simp add: ok rev late) (simp add: mock_cf_trace_def)
qed

text \<open>
  C9. \<^verbatim>\<open>postHttpRequest\<close> of the chainlink-functions client passes to \<^verbatim>\<open>fetch\<close> a signal
  that aborts at 3000 ms, no sooner and no later. A request that has not settled by then
  ends in the AbortError; a request that settles within 3000 ms is not aborted, and the
  helper then returns what a \<^verbatim>\<open>fetch\<close> without a signal returns. In \<^verbatim>\<open>queryAndVerify\<close>
  this holds for whichever request it is, the one to the authentication service, to the
  node or to the prover: if any request of the run took longer than 3000 ms, the workflow
  failed with the AbortError and that request is the last event of the trace; and the
  workflow fails with the AbortError only in that case. Time is the settling time the
  services report for each request; a request settling at exactly 3000 ms counts as
  settled.
\<close>

theorem slow_request_aborts_workflow:
  "(3000 < fst (srv tr \<lparr>req_method = POST, url = u, headers = hs,
                        body = (if truthy d then Some d else None)\<rparr>)
      \<longrightarrow> postHttpRequest_cf srv u hs d tr
          = (Inl AbortError,
             tr @ [Fetch \<lparr>req_method = POST, url = u, headers = hs,
                           body = (if truthy d then Some d else None)\<rparr>]))
   \<and> (fst (srv tr \<lparr>req_method = POST, url = u, headers = hs,
                   body = (if truthy d then Some d else None)\<rparr>) \<le> 3000
      \<longrightarrow> postHttpRequest_cf srv u hs d tr = postHttpRequest srv u hs d tr
          \<and> fst (postHttpRequest_cf srv u hs d tr) \<noteq> Inl AbortError)
   \<and> (length tr \<le> i
       \<and> i < length (snd (queryAndVerify_cf srv ad c queryString table commitmentKey tr))
       \<and> snd (queryAndVerify_cf srv ad c queryString table commitmentKey tr) ! i = Fetch req
       \<and> 3000 < fst (srv (take i (snd (queryAndVerify_cf srv ad c queryString table
                                         commitmentKey tr))) req)
      \<longrightarrow> fst (queryAndVerify_cf srv ad c queryString table commitmentKey tr) = Inl AbortError
          \<and> Suc i = length (snd (queryAndVerify_cf srv ad c queryString table commitmentKey tr)))
   \<and> (fst (queryAndVerify_cf srv ad c queryString table commitmentKey tr) = Inl AbortError
      \<longrightarrow> (\<exists>h late. snd (queryAndVerify_cf srv ad c queryString table commitmentKey tr)
                       = h @ [Fetch late]
             \<and> length tr \<le> length h \<and> 3000 < fst (srv h late)))"
proof (intro conjI impI)
  assume "3000 < fst (srv tr \<lparr>req_method = POST, url = u, headers = hs,
                        body = (if truthy d then Some d else None)\<rparr>)"
  then show "postHttpRequest_cf srv u hs d tr
          = (Inl AbortError,
             tr @ [Fetch \<lparr>req_method = POST, url = u, headers = hs,
                           body = (if truthy d then Some d else None)\<rparr>])"
    unfolding postHttpRequest_cf_def by (rule fetch_late)
next
  assume "fst (srv tr \<lparr>req_method = POST, url = u, headers = hs,
                   body = (if truthy d then Some d else None)\<rparr>) \<le> 3000"
  then have "\<not> 3000 < fst (srv tr \<lparr>req_method = POST, url = u, headers = hs,
                   body = (if truthy d then Some d else None)\<rparr>)" by simp
  then show eq: "postHttpRequest_cf srv u hs d tr = postHttpRequest srv u hs d tr"
    unfolding postHttpRequest_cf_def postHttpRequest_def by (rule fetch_in_time)
  show "fst (postHttpRequest_cf srv u hs d tr) \<noteq> Inl AbortError"
    using no_abort_postHttpRequest [of srv u hs d] by (simp add: eq no_abort_def)
next
  let ?run = "queryAndVerify_cf srv ad c queryString table commitmentKey tr"
  assume a: "length tr \<le> i \<and> i < length (snd ?run) \<and> snd ?run ! i = Fetch req
       \<and> 3000 < fst (srv (take i (snd ?run)) req)"
  have "?run = (fst ?run, snd ?run)" by simp
  with late_aborts_queryAndVerify_cf [of srv ad c queryString table commitmentKey] a
  have "fst ?run = Inl AbortError \<and> Suc i = length (snd ?run)"
    unfolding late_aborts_def by blast
  then show "fst ?run = Inl AbortError" "Suc i = length (snd ?run)" by simp_all
next
  let ?run = "queryAndVerify_cf srv ad c queryString table commitmentKey tr"
  assume a: "fst ?run = Inl AbortError"
  have "?run = (fst ?run, snd ?run)" by simp
  with abort_means_late_queryAndVerify_cf [of srv ad c queryString table commitmentKey] a
  show "\<exists>h late. snd ?run = h @ [Fetch late] \<and> length tr \<le> length h \<and> 3000 < fst (srv h late)"
    unfolding abort_means_late_def by blast
qed

text \<open>
  On scripted services whose prover answers after 5000 ms, the third request of the run is
  the slow one and the run ends there with the AbortError. With a prover that answers
  after exactly 3000 ms nothing is aborted and the run returns the verified rows.
\<close>

theorem slow_request_aborts_workflow_witness:
  "fst (queryAndVerify_cf (mock_cf (JStr ''0xAB12'') 5000) mock_adapter mock_cf_client
          ''select 1'' ''t'' (JStr ''0xkey'') []) = Inl AbortError
   \<and> Suc 2 = length (snd (queryAndVerify_cf (mock_cf (JStr ''0xAB12'') 5000) mock_adapter
          mock_cf_client ''select 1'' ''t'' (JStr ''0xkey'') []))
   \<and> (\<exists>h late. snd (queryAndVerify_cf (mock_cf (JStr ''0xAB12'') 5000) mock_adapter
          mock_cf_client ''select 1'' ''t'' (JStr ''0xkey'') []) = h @ [Fetch late]
        \<and> 3000 < fst (mock_cf (JStr ''0xAB12'') 5000 h late))
   \<and> postHttpRequest_cf (mock_cf (JStr ''0xAB12'') 5000) ''prover'' [] JNull []
       = (Inl AbortError,
          [Fetch \<lparr>req_method = POST, url = ''prover'', headers = [], body = None\<rparr>])
   \<and> postHttpRequest_cf (mock_cf (JStr ''0xAB12'') 3000) ''prover'' [] JNull []
       = (Inr \<lparr>ok = True, status = 200, statusText = ''OK'', json = Some mock_rows\<rparr>,
          [Fetch \<lparr>req_method = POST, url = ''prover'', headers = [], body = None\<rparr>])
   \<and> queryAndVerify_cf (mock_cf (JStr ''0xAB12'') 3000) mock_adapter mock_cf_client
          ''select 1'' ''t'' (JStr ''0xkey'') [] = (Inr mock_verified, mock_cf_trace)"
proof -
  let ?late = "mock_cf (JStr ''0xAB12'') 5000"
  let ?edge = "mock_cf (JStr ''0xAB12'') 3000"
  let ?run = "queryAndVerify_cf ?late mock_adapter mock_cf_client ''select 1'' ''t''
                (JStr ''0xkey'') []"
  let ?p = "\<lparr>req_method = POST, url = ''prover'',
             headers = [(''Authorization'', ''Bearer tok1''),
                        (''content-type'', ''application/json'')],
             body = Some (JObj [(''query'', JStr ''select 1'')])\<rparr>"
  let ?q = "\<lparr>req_method = POST, url = ''prover'', headers = [],
             body = (if truthy JNull then Some JNull else None)\<rparr>"
  note inst = slow_request_aborts_workflow [where tr = "[]" and u = "''prover''" and hs = "[]"
      and d = JNull and i = 2 and ad = mock_adapter and c = mock_cf_client
      and queryString = "''select 1''" and table = "''t''" and commitmentKey = "JStr ''0xkey''"
      and req = ?p]
  have hyp: "length ([] :: event list) \<le> 2 \<and> 2 < length (snd ?run) \<and> snd ?run ! 2 = Fetch ?p
      \<and> 3000 < fst (?late (take 2 (snd ?run)) ?p)"
    by (simp add: mock_cf_run_late mock_cf_trace_def) (simp add: mock_cf_def)
  have slow: "3000 < fst (?late [] ?q)" and quick: "fst (?edge [] ?q) \<le> 3000"
    by (simp_all add: mock_cf_def)
  from inst [where srv = ?late, THEN conjunct2, THEN conjunct2, THEN conjunct1] hyp
  have w3: "fst ?run = Inl AbortError \<and> Suc 2 = length (snd ?run)" by blast
  with inst [where srv = ?late, THEN conjunct2, THEN conjunct2, THEN conjunct2]
  have w4: "\<exists>h late. snd ?run = h @ [Fetch late] \<and> 3000 < fst (?late h late)" by blast
  from inst [where srv = ?late, THEN conjunct1] slow
  have w1: "postHttpRequest_cf ?late ''prover'' [] JNull []
       = (Inl AbortError,
          [Fetch \<lparr>req_method = POST, url = ''prover'', headers = [], body = None\<rparr>])"
    by simp
  from inst [where srv = ?edge, THEN conjunct2, THEN conjunct1] quick
  have "postHttpRequest_cf ?edge ''prover'' [] JNull []
       = postHttpRequest ?edge ''prover'' [] JNull []" by blast
  then have w2: "postHttpRequest_cf ?edge ''prover'' [] JNull []
       = (Inr \<lparr>ok = True, status = 200, statusText = ''OK'', json = Some mock_rows\<rparr>,
          [Fetch \<lparr>req_method = POST, url = ''prover'', headers = [], body = None\<rparr>])"
    by (simp add: postHttpRequest_def fetch_None mock_cf_def)
  have w5: "queryAndVerify_cf ?edge mock_adapter mock_cf_client ''select 1'' ''t''
       (JStr ''0xkey'') [] = (Inr mock_verified, mock_cf_trace)"
    by (rule mock_cf_run_in_time) simp
  from w1 w2 w3 w4 w5 show ?thesis by blast
qed

text \<open>
  C10. The helpers of the asynchronous client pass to \<^verbatim>\<open>fetch\<close> the signal of a controller
  that nothing fires. Whatever time the services take, \<^verbatim>\<open>postHttpRequest\<close>,
  \<^verbatim>\<open>getHttpRequest\<close> and the whole \<^verbatim>\<open>queryAndVerify\<close> behave the same (outcome and
  trace do not depend on the settling times), and none of them ever ends in the
  AbortError: the client never cancels or times out a request of its own.
\<close>

theorem async_requests_never_aborted:
  "postHttpRequest (delayed d srv) u hs data tr = postHttpRequest srv u hs data tr
   \<and> getHttpRequest (delayed d srv) u hs tr = getHttpRequest srv u hs tr
   \<and> fst (postHttpRequest srv u hs data tr) \<noteq> Inl AbortError
   \<and> fst (getHttpRequest srv u hs tr) \<noteq> Inl AbortError
   \<and> queryAndVerify_zk (delayed d srv) ad c queryString blockHash tr
       = queryAndVerify_zk srv ad c queryString blockHash tr
   \<and> fst (queryAndVerify_zk srv ad c queryString blockHash tr) \<noteq> Inl AbortError"
  using no_abort_postHttpRequest [of srv u hs data] no_abort_getHttpRequest [of srv u hs]
    no_abort_queryAndVerify_zk [of srv ad c queryString blockHash]
  by (simp add: postHttpRequest_delayed getHttpRequest_delayed queryAndVerify_zk_delayed
      no_abort_def)

text \<open>
  On scripted services that take a million milliseconds for every answer: the run is the
  one of the immediate services, and it returns the verified rows.
\<close>

theorem async_requests_never_aborted_witness:
  "queryAndVerify_zk (delayed (\<lambda>h req. 1000000) (mock_zk 0 ''done'')) mock_adapter
       mock_zk_client ''select 1'' JNull []
     = (Inr (JObj [(''rows'', mock_rows)]),
        mock_zk_prologue ''select 1''
         @ [Fetch (zk_get_request mock_zk_client (status_endpoint (JStr ''q1'')) (JStr ''tok1'')),
            Fetch (zk_get_request mock_zk_client (results_endpoint (JStr ''q1'')) (JStr ''tok1''))])
   \<and> fst (delayed (\<lambda>h req. 1000000) (mock_zk 0 ''done'') []
            (zk_get_request mock_zk_client (results_endpoint (JStr ''q1'')) (JStr ''tok1'')))
       = 1000000"
  using async_requests_never_aborted [where d = "\<lambda>h req. 1000000" and srv = "mock_zk 0 ''done''"
      and ad = mock_adapter and c = mock_zk_client and queryString = "''select 1''"
      and blockHash = JNull and tr = "[]" and u = "''zk''" and hs = "[]" and data = JNull]
  by (simp add: mock_zk_run delayed_def)

end
